theory Spec2Isabelle
  imports Complex_Main
begin

section \<open>Arrays\<close>

text \<open>
  The models of \<^verbatim>\<open>newt/basemodels.py\<close> work on arrays of double-precision numbers.
  A one-dimensional array is a list, a two-dimensional array a list of rows, and a batch
  of matrices (shape \<^verbatim>\<open>[N, D1, D2]\<close>) a list of matrices. Numbers are idealised as
  reals (rounding is not part of this development); an entry that may be NaN is a
  \<open>real option\<close>, with \<open>None\<close> for NaN.
\<close>

type_synonym vec = "real list"
type_synonym mat = "real list list"
type_synonym bmat = "real list list list"

text \<open>An argument that the source accepts with one or two dimensions (\<^verbatim>\<open>if X.ndim < 2: X = X[:, None]\<close>).\<close>

datatype 'a ndarray12 = Arr1 "'a list" | Arr2 "'a list list"

fun atleast_2d :: "'a ndarray12 \<Rightarrow> 'a list list" where
  "atleast_2d (Arr1 xs) = map (\<lambda>x. [x]) xs"
| "atleast_2d (Arr2 A) = A"

definition ncols :: "'a list list \<Rightarrow> nat" where
  \<comment> \<open>\<^verbatim>\<open>A.shape[1]\<close> of a two-dimensional array with at least one row\<close>
  "ncols A = (case A of [] \<Rightarrow> 0 | r # _ \<Rightarrow> length r)"

definition shape1 :: "bmat \<Rightarrow> nat" where
  \<comment> \<open>\<^verbatim>\<open>P.shape[1]\<close> of a batch with at least one matrix\<close>
  "shape1 P = (case P of [] \<Rightarrow> 0 | A # _ \<Rightarrow> length A)"

definition zeros2 :: "nat \<Rightarrow> nat \<Rightarrow> mat" where
  "zeros2 r c = replicate r (replicate c 0)"

definition zeros3 :: "nat \<Rightarrow> nat \<Rightarrow> nat \<Rightarrow> bmat" where
  "zeros3 n r c = replicate n (zeros2 r c)"

definition zeros_like :: "bmat \<Rightarrow> bmat" where
  "zeros_like P = map (map (map (\<lambda>_. 0))) P"

definition eye :: "nat \<Rightarrow> mat" where
  "eye d = map (\<lambda>i. map (\<lambda>j. if i = j then 1 else 0) [0..<d]) [0..<d]"

definition tile :: "mat \<Rightarrow> nat \<Rightarrow> bmat" where
  \<comment> \<open>\<^verbatim>\<open>np.tile(A, [n, 1, 1])\<close>\<close>
  "tile A n = replicate n A"

definition scale :: "real \<Rightarrow> mat \<Rightarrow> mat" where
  "scale c A = map (map (\<lambda>x. c * x)) A"

definition madd :: "mat \<Rightarrow> mat \<Rightarrow> mat" where
  "madd A B = map2 (map2 (+)) A B"

definition mT :: "mat \<Rightarrow> mat" where
  \<comment> \<open>\<^verbatim>\<open>np.swapaxes(A, -1, -2)\<close> of one matrix\<close>
  "mT A = map (\<lambda>j. map (\<lambda>r. r ! j) A) [0..<ncols A]"

definition matmul :: "mat \<Rightarrow> mat \<Rightarrow> mat" where
  \<comment> \<open>\<^verbatim>\<open>A @ B\<close> of two matrices\<close>
  "matmul A B = map (\<lambda>r. map (\<lambda>j. sum_list (map2 (\<lambda>a b. a * b ! j) r B)) [0..<ncols B]) A"

definition bmm :: "bmat \<Rightarrow> bmat \<Rightarrow> bmat" where
  \<comment> \<open>\<^verbatim>\<open>P @ Q\<close> of two batches of the same length\<close>
  "bmm P Q = map2 matmul P Q"

definition gather :: "'a list \<Rightarrow> nat list \<Rightarrow> 'a list" where
  \<comment> \<open>\<^verbatim>\<open>A[batch_ind]\<close>\<close>
  "gather A batch_ind = map (\<lambda>n. A ! n) batch_ind"

definition np_diff :: "vec \<Rightarrow> vec" where
  \<comment> \<open>\<^verbatim>\<open>np.diff(a) = a[1:] - a[:-1]\<close>\<close>
  "np_diff a = map2 (\<lambda>x y. x - y) (tl a) (butlast a)"

definition np_diag :: "mat \<Rightarrow> vec" where
  \<comment> \<open>\<^verbatim>\<open>np.diag\<close> of a matrix\<close>
  "np_diag A = map (\<lambda>i. A ! i ! i) [0..<min (length A) (ncols A)]"

definition transpose' :: "bmat \<Rightarrow> bmat" where
  \<comment> \<open>Modelled from the spec: \<^verbatim>\<open>utils.transpose\<close> is not part of the file; the spec writes
      its result on a batch of projectors \<open>W\<close> as the batch of the transposes \<open>W\<^sup>T\<close>.\<close>
  "transpose' P = map mT P"

fun scan :: "('c \<Rightarrow> 'x \<Rightarrow> 'c \<times> 'y) \<Rightarrow> 'c \<Rightarrow> 'x list \<Rightarrow> 'c \<times> 'y list" where
  \<comment> \<open>\<^verbatim>\<open>jax.lax.scan(f, init, xs)\<close>: the final carry and the stacked outputs\<close>
  "scan f init [] = (init, [])"
| "scan f init (x # xs) =
     (let (carry, y) = f init x;
          (final, ys) = scan f carry xs
      in (final, y # ys))"

definition np_unique :: "vec \<Rightarrow> vec \<times> nat list" where
  \<comment> \<open>\<^verbatim>\<open>np.unique(x, return_inverse=True)\<close>: the sorted distinct values, and for every entry
      of \<open>x\<close> its position among them\<close>
  "np_unique xs =
     (let u = sort (remdups xs)
      in (u, map (\<lambda>x. length (takeWhile (\<lambda>y. y \<noteq> x) u)) xs))"

section \<open>Arrays of any dimension\<close>

text \<open>
  Where the source removes dimensions of length one (\<^verbatim>\<open>np.squeeze\<close>) the number of dimensions
  of the result depends on the data, and the operations that follow broadcast. There the
  model works on arrays of any dimension: a number (a zero-dimensional array), or an array of
  arrays. Broadcasting follows numpy: the shapes are aligned at the last dimension, and two
  dimensions match when they are equal or one of them is one.
\<close>

datatype ndarray = Sc real | Ar "ndarray list"

datatype py_error = OperandIsNone | ValueError | IndexError | ShapeMismatch

fun ndim :: "ndarray \<Rightarrow> nat" where
  "ndim (Sc x) = 0"
| "ndim (Ar []) = 1"
| "ndim (Ar (a # as)) = Suc (ndim a)"

fun squeeze :: "ndarray \<Rightarrow> ndarray" where
  "squeeze (Sc x) = Sc x"
| "squeeze (Ar [a]) = squeeze a"
| "squeeze (Ar as) = Ar (map squeeze as)"

definition of_vec :: "vec \<Rightarrow> ndarray" where
  "of_vec v = Ar (map Sc v)"

definition of_mat :: "mat \<Rightarrow> ndarray" where
  "of_mat A = Ar (map of_vec A)"

definition of_bmat :: "bmat \<Rightarrow> ndarray" where
  "of_bmat P = Ar (map of_mat P)"

fun to_vec :: "ndarray \<Rightarrow> vec option" where
  "to_vec (Sc x) = None"
| "to_vec (Ar as) = those (map (\<lambda>a. case a of Sc x \<Rightarrow> Some x | Ar _ \<Rightarrow> None) as)"

fun to_mat :: "ndarray \<Rightarrow> mat option" where
  "to_mat (Sc x) = None"
| "to_mat (Ar as) = those (map to_vec as)"

function (sequential) broadcast ::
  "(real \<Rightarrow> real \<Rightarrow> real) \<Rightarrow> ndarray \<Rightarrow> ndarray \<Rightarrow> ndarray option" where
  "broadcast f (Sc x) (Sc y) = Some (Sc (f x y))"
| "broadcast f (Sc x) (Ar bs) = map_option Ar (those (map (\<lambda>b. broadcast f (Sc x) b) bs))"
| "broadcast f (Ar as) (Sc y) = map_option Ar (those (map (\<lambda>a. broadcast f a (Sc y)) as))"
| "broadcast f (Ar as) (Ar bs) =
     (if ndim (Ar as) < ndim (Ar bs) then
        map_option Ar (those (map (\<lambda>b. broadcast f (Ar as) b) bs))
      else if ndim (Ar bs) < ndim (Ar as) then
        map_option Ar (those (map (\<lambda>a. broadcast f a (Ar bs)) as))
      else if length as = length bs then
        map_option Ar (those (map (\<lambda>k. broadcast f (as ! k) (bs ! k)) [0..<length as]))
      else if length as = 1 then
        map_option Ar (those (map (\<lambda>b. broadcast f (as ! 0) b) bs))
      else if length bs = 1 then
        map_option Ar (those (map (\<lambda>a. broadcast f a (bs ! 0)) as))
      else None)"
  by pat_completeness auto
termination
proof (relation "measure (\<lambda>(f, a, b). size a + size b)", goal_cases)
  case 1
  then show ?case by simp
next
  case (2 f x bs b)
  then show ?case by (simp add: less_Suc_eq_le size_list_estimation')
next
  case (3 f as y a)
  then show ?case by (simp add: less_Suc_eq_le size_list_estimation')
next
  case (4 f as bs b)
  then show ?case by (simp add: less_Suc_eq_le size_list_estimation')
next
  case (5 f as bs a)
  then show ?case by (simp add: less_Suc_eq_le size_list_estimation')
next
  case (6 f as bs k)
  then have "as ! k \<in> set as" "bs ! k \<in> set bs" by simp_all
  then have "size (as ! k) \<le> size_list size as" "size (bs ! k) \<le> size_list size bs"
    by (simp_all add: size_list_estimation')
  then show ?case by simp
next
  case (7 f as bs b)
  then have "as ! 0 \<in> set as" by simp
  then have "size (as ! 0) \<le> size_list size as"
    by (simp add: size_list_estimation')
  moreover from 7 have "size b \<le> size_list size bs"
    by (simp add: size_list_estimation')
  ultimately show ?case by simp
next
  case (8 f as bs a)
  then have "bs ! 0 \<in> set bs" by simp
  then have "size (bs ! 0) \<le> size_list size bs"
    by (simp add: size_list_estimation')
  moreover from 8 have "size a \<le> size_list size as"
    by (simp add: size_list_estimation')
  ultimately show ?case by simp
qed

definition np_diag_nd :: "ndarray \<Rightarrow> py_error + ndarray" where
  \<comment> \<open>\<^verbatim>\<open>np.diag\<close>: the diagonal matrix of a one-dimensional array, the diagonal of a
      two-dimensional one, and a \<^verbatim>\<open>ValueError\<close> for any other number of dimensions\<close>
  "np_diag_nd a =
     (case to_vec a of
        Some v \<Rightarrow>
          Inr (of_mat (map (\<lambda>i. map (\<lambda>j. if i = j then v ! i else 0) [0..<length v]) [0..<length v]))
      | None \<Rightarrow>
          (case to_mat a of
             Some A \<Rightarrow> Inr (of_vec (np_diag A))
           | None \<Rightarrow> Inl ValueError))"

definition take_columns :: "ndarray \<Rightarrow> nat list \<Rightarrow> py_error + ndarray" where
  \<comment> \<open>\<^verbatim>\<open>a[:, ind]\<close>, an \<^verbatim>\<open>IndexError\<close> when \<open>a\<close> has fewer than two dimensions\<close>
  "take_columns a idx =
     (if ndim a < 2 then Inl IndexError
      else case a of
             Sc x \<Rightarrow> Inl IndexError
           | Ar rows \<Rightarrow>
               Inr (Ar (map (\<lambda>row. case row of Sc x \<Rightarrow> Sc x | Ar cs \<Rightarrow> Ar (gather cs idx)) rows)))"

section \<open>Collaborators\<close>

text \<open>
  The kernel is an opaque collaborator: a record of the callbacks that the model classes
  call; \<open>is_Independent\<close> is the test \<^verbatim>\<open>isinstance(kernel, Independent)\<close>.
\<close>

record Kernel =
  K :: "mat \<Rightarrow> mat \<Rightarrow> mat"
  is_Independent :: bool
  measurement_model :: mat
  stationary_covariance :: mat
  state_transition :: "real \<Rightarrow> mat"
  spatial_conditional :: "mat \<Rightarrow> real option list list \<Rightarrow> bmat \<times> bmat"

text \<open>
  The routines that \<^verbatim>\<open>basemodels.py\<close> imports from \<^verbatim>\<open>jax.scipy.linalg\<close>, \<^verbatim>\<open>.utils\<close> and
  \<^verbatim>\<open>.ops\<close> are not part of the file. They are parameters of the model, collected in one
  record. \<open>'c\<close> is the type of the Cholesky factor of a batch as \<^verbatim>\<open>cho_factor\<close> returns
  it; \<open>cho_factor_2d\<close> and \<open>cho_solve_2d\<close> are the same routines on one matrix, where the
  source reads the factor (\<^verbatim>\<open>Ly, low = cho_factor(Ky)\<close>); \<open>cholesky\<close> and \<open>cholesky_batch\<close>
  are \<^verbatim>\<open>np.linalg.cholesky\<close> on one matrix and on a batch; \<open>normal seed n\<close> is the list of the
  \<open>n\<close> draws of \<^verbatim>\<open>objax.random.normal\<close> from \<^verbatim>\<open>objax.random.Generator(seed)\<close>, in row-major
  order; \<open>rauch_tung_striebel_smoother\<close> always returns the gains (the source drops them
  where it does not ask for \<^verbatim>\<open>return_full\<close>); and \<open>on_gpu\<close> is
  \<^verbatim>\<open>xla_bridge.get_backend().platform == 'gpu'\<close>. What \<^verbatim>\<open>utils.transpose\<close> does with the
  argument \<^verbatim>\<open>None\<close> is \<open>transpose_None\<close>: it raises, or it returns an array, or it returns
  something that is no array (\<open>Inr None\<close>).
\<close>

record 'c routines =
  cho_factor :: "bmat \<Rightarrow> 'c"
  cho_solve :: "'c \<Rightarrow> bmat \<Rightarrow> bmat"
  cho_factor_2d :: "mat \<Rightarrow> mat \<times> bool"
  cho_solve_2d :: "mat \<times> bool \<Rightarrow> mat \<Rightarrow> mat"
  cholesky :: "mat \<Rightarrow> mat"
  cholesky_batch :: "bmat \<Rightarrow> bmat"
  normal :: "int \<Rightarrow> nat \<Rightarrow> vec"
  inv_vmap :: "bmat \<Rightarrow> bmat"
  solve :: "mat \<Rightarrow> mat \<Rightarrow> mat"
  diag :: "bmat \<Rightarrow> mat"
  input_admin :: "real ndarray12 \<Rightarrow> real option ndarray12 \<Rightarrow> real option ndarray12 option
    \<Rightarrow> mat \<times> real option list list \<times> real option list list \<times> vec"
  set_z_stats :: "mat \<Rightarrow> mat \<Rightarrow> nat list \<times> vec"
  compute_conditional_statistics :: "vec \<Rightarrow> mat \<Rightarrow> Kernel \<Rightarrow> nat \<Rightarrow> mat \<times> mat"
  temporal_conditional :: "mat \<Rightarrow> mat \<Rightarrow> bmat \<Rightarrow> bmat \<Rightarrow> bmat \<Rightarrow> Kernel \<Rightarrow> bmat \<times> bmat"
  gaussian_conditional :: "Kernel \<Rightarrow> bmat \<Rightarrow> bmat \<Rightarrow> mat \<Rightarrow> mat option \<Rightarrow> mat \<times> mat"
  sparse_gaussian_conditional :: "Kernel \<Rightarrow> bmat \<Rightarrow> bmat \<Rightarrow> mat \<Rightarrow> mat \<Rightarrow> mat \<times> mat"
  sparse_conditional_post_to_data :: "Kernel \<Rightarrow> bmat \<Rightarrow> mat \<Rightarrow> mat \<Rightarrow> mat \<Rightarrow> mat \<times> mat"
  kalman_filter :: "vec \<Rightarrow> Kernel \<Rightarrow> bmat \<Rightarrow> bmat \<Rightarrow> bool list list option \<Rightarrow> bool
    \<Rightarrow> real \<times> bmat \<times> bmat"
  rauch_tung_striebel_smoother :: "vec \<Rightarrow> Kernel \<Rightarrow> bmat \<Rightarrow> bmat \<Rightarrow> bool \<Rightarrow> bmat \<times> bmat \<times> bmat"
  process_noise_covariance :: "mat \<Rightarrow> mat \<Rightarrow> mat"
  on_gpu :: bool
  transpose_None :: "py_error + bmat option"

section \<open>The pseudo-likelihood store\<close>

record GaussianDistribution =
  mean :: bmat
  covariance :: bmat
  nat1 :: bmat
  nat2 :: bmat

text \<open>
  The fields stand for the state variables \<^verbatim>\<open>mean_\<close>, \<^verbatim>\<open>covariance_\<close>, \<^verbatim>\<open>nat1_\<close> and
  \<^verbatim>\<open>nat2_\<close>, under the names of the properties that read them.
\<close>

definition reparametrise :: "'c routines \<Rightarrow> bmat \<Rightarrow> bmat \<Rightarrow> bmat \<times> bmat" where
  "reparametrise E param1 param2 =
     (let chol = cho_factor E param2;
          reparam1 = cho_solve E chol param1;
          reparam2 = cho_solve E chol (tile (eye (shape1 param2)) (length param2))
      in (reparam1, reparam2))"

definition GaussianDistribution_init :: "'c routines \<Rightarrow> bmat \<Rightarrow> bmat \<Rightarrow> GaussianDistribution" where
  "GaussianDistribution_init E m c =
     (let (n1, n2) = reparametrise E m c
      in \<lparr>mean = m, covariance = c, nat1 = n1, nat2 = n2\<rparr>)"

definition update_mean_cov ::
  "'c routines \<Rightarrow> GaussianDistribution \<Rightarrow> bmat \<Rightarrow> bmat \<Rightarrow> GaussianDistribution" where
  "update_mean_cov E self m c =
     (let (n1, n2) = reparametrise E m c
      in self\<lparr>mean := m, covariance := c, nat1 := n1, nat2 := n2\<rparr>)"

definition update_nat_params ::
  "'c routines \<Rightarrow> GaussianDistribution \<Rightarrow> bmat \<Rightarrow> bmat \<Rightarrow> GaussianDistribution" where
  "update_nat_params E self n1 n2 =
     (let (m, c) = reparametrise E n1 n2
      in self\<lparr>nat1 := n1, nat2 := n2, mean := m, covariance := c\<rparr>)"

section \<open>The parent model\<close>

text \<open>
  The fields of \<^verbatim>\<open>BaseModel\<close> that the inference interface reads; the likelihood is an
  opaque collaborator that no function below calls, and is left out.
\<close>

record BaseModel =
  X :: mat
  Y :: "real option list list"
  kernel :: Kernel
  num_data :: nat
  func_dim :: nat
  obs_dim :: nat
  pseudo_likelihood :: GaussianDistribution
  posterior_mean :: bmat
  posterior_variance :: bmat
  ind :: "nat list"
  num_neighbours :: vec
  mask_y :: "bool list list"
  mask_pseudo_y :: "bool list list option"

definition BaseModel_init ::
  "'c routines \<Rightarrow> Kernel \<Rightarrow> real ndarray12 \<Rightarrow> real option ndarray12 \<Rightarrow> nat \<Rightarrow> BaseModel" where
  "BaseModel_init E kern Xin Yin fdim =
     (let X2 = atleast_2d Xin;
          Y2 = atleast_2d Yin;
          n = length X2;
          odim = ncols Y2;
          pseudo_lik_size = (if is_Independent kern then fdim else odim);
          site = GaussianDistribution_init E
                   (zeros3 n pseudo_lik_size 1)
                   (map (scale (10 ^ 2)) (tile (eye pseudo_lik_size) n));
          m_y = map (map (\<lambda>y. y = None)) Y2
      in \<lparr>X = X2, Y = Y2, kernel = kern, num_data = n, func_dim = fdim, obs_dim = odim,
          pseudo_likelihood = site,
          posterior_mean = zeros3 n fdim 1,
          posterior_variance = tile (eye fdim) n,
          ind = [0..<n],
          num_neighbours = replicate n 1,
          mask_y = m_y,
          mask_pseudo_y =
            Some (if fdim \<noteq> odim then map (\<lambda>row. concat (replicate pseudo_lik_size row)) m_y
                  else m_y)\<rparr>)"

section \<open>The dense model\<close>

record GP = BaseModel +
  obs_ind :: "nat list"

definition where_not :: "bool list list \<Rightarrow> nat list" where
  \<comment> \<open>\<^verbatim>\<open>np.where(~mask)[0]\<close>: the row index of every false entry, in row-major order\<close>
  "where_not msk = concat (map (\<lambda>n. map (\<lambda>_. n) (filter Not (msk ! n))) [0..<length msk])"

definition GP_init ::
  "'c routines \<Rightarrow> Kernel \<Rightarrow> real ndarray12 \<Rightarrow> real option ndarray12 \<Rightarrow> GP" where
  "GP_init E kern Xin Yin =
     (let base = BaseModel_init E kern Xin Yin 1
      in BaseModel.extend base (GP.fields (where_not (mask_y base))))"

text \<open>
  \<^verbatim>\<open>GP.predict\<close> and \<^verbatim>\<open>SparseGP.predict\<close> do not read their argument \<^verbatim>\<open>R\<close>, which is left out.
\<close>

definition GP_predict ::
  "'c routines \<Rightarrow> 'a GP_scheme \<Rightarrow> real ndarray12 \<Rightarrow> 'a GP_scheme \<times> ndarray \<times> vec" where
  "GP_predict E self Xtest =
     (let X2 = atleast_2d Xtest;
          (m, c) = gaussian_conditional E (kernel self)
                     (mean (pseudo_likelihood self))
                     (covariance (pseudo_likelihood self))
                     (X self) (Some X2);
          predict_mean = squeeze (of_mat m);
          predict_variance = np_diag c
      in (self, predict_mean, predict_variance))"

text \<open>
  \<^verbatim>\<open>GP.compute_log_lik\<close>. \<^verbatim>\<open>LOG2PI\<close> is \<^verbatim>\<open>math.log(2 * math.pi)\<close>. The noise matrix is
  \<^verbatim>\<open>np.diag(np.squeeze(pseudo_var))\<close>: the selected variances with their dimensions of length
  one removed, then \<^verbatim>\<open>np.diag\<close>. When \<^verbatim>\<open>pseudo_y\<close> is given without \<^verbatim>\<open>pseudo_var\<close>, the
  source indexes \<^verbatim>\<open>None\<close>, which raises.
\<close>

definition GP_compute_log_lik ::
  "'c routines \<Rightarrow> 'a GP_scheme \<Rightarrow> bmat option \<Rightarrow> bmat option \<Rightarrow> py_error + real" where
  "GP_compute_log_lik E self pseudo_y pseudo_var =
     (let dim = 1;
          Xo = gather (X self) (obs_ind self);
          (py, pv) = (case pseudo_y of
                        None \<Rightarrow> (mean (pseudo_likelihood self),
                                  Some (covariance (pseudo_likelihood self)))
                      | Some y \<Rightarrow> (y, pseudo_var))
      in case pv of
           None \<Rightarrow> Inl OperandIsNone
         | Some v \<Rightarrow>
             (let y_obs = gather py (obs_ind self);
                  v_obs = gather v (obs_ind self);
                  Knn = K (kernel self) Xo Xo
              in case np_diag_nd (squeeze (of_bmat v_obs)) of
                   Inl e \<Rightarrow> Inl e
                 | Inr noise \<Rightarrow>
                     (case Option.bind (broadcast (+) (of_mat Knn) noise) to_mat of
                        None \<Rightarrow> Inl ValueError
                      | Some Ky \<Rightarrow>
                          (let y2 = diag E y_obs;
                               (Ly, low) = cho_factor_2d E Ky;
                               log_lik_pseudo =
                                 - (1 / 2) * sum_list (concat (matmul (mT y2) (cho_solve_2d E (Ly, low) y2)))
                                 - sum_list (map ln (np_diag Ly))
                                 - (1 / 2) * real (length y2) * dim * ln (2 * pi)
                           in Inr log_lik_pseudo))))"

section \<open>The sparse model\<close>

text \<open>
  The flag \<^verbatim>\<open>opt_z\<close> only chooses whether \<^verbatim>\<open>Z\<close> is a trainable or a state variable; the
  value stored is the same.
\<close>

record SparseGP = GP +
  Z :: mat
  num_inducing :: nat
  posterior_covariance :: mat

definition reshape_N11 :: "vec \<Rightarrow> bmat" where
  \<comment> \<open>\<^verbatim>\<open>v.reshape(N, 1, 1)\<close> of an array with \<^verbatim>\<open>N\<close> entries\<close>
  "reshape_N11 v = map (\<lambda>x. [[x]]) v"

definition badd :: "bmat \<Rightarrow> mat \<Rightarrow> bmat" where
  \<comment> \<open>\<^verbatim>\<open>P + A\<close>, the matrix \<^verbatim>\<open>A\<close> broadcast over the batch \<^verbatim>\<open>P\<close>\<close>
  "badd P A = map (\<lambda>Q. madd Q A) P"

definition SparseGP_init ::
  "'c routines \<Rightarrow> Kernel \<Rightarrow> real ndarray12 \<Rightarrow> real option ndarray12 \<Rightarrow> real ndarray12 \<Rightarrow> SparseGP" where
  "SparseGP_init E kern Xin Yin Zin =
     (let base = GP_init E kern Xin Yin;
          Z2 = atleast_2d Zin;
          m = length Z2
      in GP.extend
           (base\<lparr>posterior_mean := zeros3 m (func_dim base) 1,
                 posterior_variance := tile (eye (func_dim base)) m\<rparr>)
           (SparseGP.fields Z2 m (eye m)))"

definition SparseGP_update_posterior :: "'c routines \<Rightarrow> 'a SparseGP_scheme \<Rightarrow> 'a SparseGP_scheme" where
  "SparseGP_update_posterior E self =
     (let (m, c) = sparse_gaussian_conditional E (kernel self)
                     (nat1 (pseudo_likelihood self))
                     (nat2 (pseudo_likelihood self))
                     (X self) (Z self)
      in self\<lparr>posterior_mean := reshape_N11 (concat m),
              posterior_variance := reshape_N11 (np_diag c),
              posterior_covariance := c\<rparr>)"

definition SparseGP_compute_full_pseudo_nat ::
  "'c routines \<Rightarrow> 'a SparseGP_scheme \<Rightarrow> nat list \<Rightarrow> bmat \<times> bmat" where
  "SparseGP_compute_full_pseudo_nat E self batch_ind =
     (let Kuf = K (kernel self) (Z self) (map (\<lambda>x. [x]) (concat (gather (X self) batch_ind)));
          Kuu = K (kernel self) (Z self) (Z self);
          Wuf = solve E Kuu Kuf;
          nat1lik_full = bmm (map (map (\<lambda>w. [w])) (mT Wuf))
                             (gather (nat1 (pseudo_likelihood self)) batch_ind);
          nat2lik_full = bmm (bmm (map (map (\<lambda>w. [w])) (mT Wuf))
                                  (gather (nat2 (pseudo_likelihood self)) batch_ind))
                             (map (\<lambda>r. [r]) (mT Wuf))
      in (nat1lik_full, nat2lik_full))"

definition SparseGP_compute_full_pseudo_lik :: "'c routines \<Rightarrow> 'a SparseGP_scheme \<Rightarrow> bmat \<times> bmat" where
  "SparseGP_compute_full_pseudo_lik E self =
     (let (nat1lik_full, nat2lik_full) = SparseGP_compute_full_pseudo_nat E self (obs_ind self);
          pseudo_var_full =
            inv_vmap E (badd nat2lik_full (scale (1 / 10 ^ 12) (eye (shape1 nat2lik_full))));
          pseudo_y_full = bmm pseudo_var_full nat1lik_full
      in (pseudo_y_full, pseudo_var_full))"

definition SparseGP_predict ::
  "'c routines \<Rightarrow> 'a SparseGP_scheme \<Rightarrow> real ndarray12 \<Rightarrow> 'a SparseGP_scheme \<times> ndarray \<times> vec" where
  "SparseGP_predict E self Xtest =
     (let X2 = atleast_2d Xtest;
          self' = SparseGP_update_posterior E self;
          (m, c) = sparse_conditional_post_to_data E (kernel self')
                     (posterior_mean self') (posterior_covariance self') X2 (Z self');
          predict_mean = squeeze (of_mat m);
          predict_variance = np_diag c
      in (self', predict_mean, predict_variance))"

section \<open>The Markov model\<close>

record MarkovGP = BaseModel +
  R :: "real option list list"
  dt :: vec
  state_dim :: nat
  minf :: mat
  spatio_temporal :: bool
  parallel :: bool

definition MarkovGP_init ::
  "'c routines \<Rightarrow> Kernel \<Rightarrow> real ndarray12 \<Rightarrow> real option ndarray12 \<Rightarrow>
   real option ndarray12 option \<Rightarrow> bool option \<Rightarrow> MarkovGP" where
  "MarkovGP_init E kern Xin Yin Rin par =
     (let par' = (case par of None \<Rightarrow> on_gpu E | Some p \<Rightarrow> p);
          (X', Y', R', dt') = input_admin E Xin Yin Rin;
          H = measurement_model kern;
          fdim = length H;
          base = BaseModel_init E kern (Arr2 X') (Arr2 Y') fdim;
          sdim = length (stationary_covariance kern);
          st = list_ex (list_ex (\<lambda>r. r \<noteq> None)) R';
          base' = (if fdim \<noteq> obs_dim base \<and> st then base\<lparr>mask_pseudo_y := None\<rparr> else base)
      in BaseModel.extend base' (MarkovGP.fields R' dt' sdim (zeros2 sdim 1) st par'))"

definition MarkovGP_compute_full_pseudo_lik :: "'c routines \<Rightarrow> 'a MarkovGP_scheme \<Rightarrow> bmat \<times> bmat" where
  "MarkovGP_compute_full_pseudo_lik E self =
     (if spatio_temporal self then
        (let (B, C) = spatial_conditional (kernel self) (X self) (R self);
             nat1lik_full = bmm (transpose' B) (nat1 (pseudo_likelihood self));
             nat2lik_full = bmm (bmm (transpose' B) (nat2 (pseudo_likelihood self))) B;
             pseudo_var_full =
               inv_vmap E (badd nat2lik_full (scale (1 / 10 ^ 12) (eye (shape1 nat2lik_full))));
             pseudo_y_full = bmm pseudo_var_full nat1lik_full
         in (pseudo_y_full, pseudo_var_full))
      else (mean (pseudo_likelihood self), covariance (pseudo_likelihood self)))"

text \<open>
  \<^verbatim>\<open>MarkovGP.predict\<close> returns its mean and variance through \<^verbatim>\<open>np.squeeze\<close>. The sentinels
  \<^verbatim>\<open>inf = 1e10 * np.ones_like(self.X[0, :1])\<close> are placed around the training times.
\<close>

definition MarkovGP_predict ::
  "'c routines \<Rightarrow> 'a MarkovGP_scheme \<Rightarrow> real ndarray12 option \<Rightarrow> real option list list option \<Rightarrow>
   (bmat \<times> bmat) option \<Rightarrow> ndarray \<times> ndarray" where
  "MarkovGP_predict E self Xtest Rtest pseudo_lik_params =
     (let X2 = (case Xtest of None \<Rightarrow> X self | Some x \<Rightarrow> atleast_2d x);
          R' = (case Rtest of None \<Rightarrow> map (\<lambda>row. map Some (drop 1 row)) X2 | Some r \<Rightarrow> r);
          X1 = map (take 1) X2;
          (pseudo_y, pseudo_var) =
            (case pseudo_lik_params of
               None \<Rightarrow> MarkovGP_compute_full_pseudo_lik E self
             | Some p \<Rightarrow> p);
          (log_lik, filter_mean, filter_cov) =
            kalman_filter E (dt self) (kernel self) pseudo_y pseudo_var
              (mask_pseudo_y self) (parallel self);
          dt' = tl (dt self) @ [0];
          (smoother_mean, smoother_cov, gain) =
            rauch_tung_striebel_smoother E dt' (kernel self) filter_mean filter_cov (parallel self);
          X_aug = [[- (10 ^ 10)]] @ map (take 1) (X self) @ [[10 ^ 10]];
          (state_mean, state_cov) =
            temporal_conditional E X_aug X1 smoother_mean smoother_cov gain (kernel self);
          H = measurement_model (kernel self);
          (test_mean, test_var) =
            (if spatio_temporal self then
               (let (B, C) = spatial_conditional (kernel self) X1 R';
                    W = map (\<lambda>Bn. matmul Bn H) B
                in (bmm W state_mean, map2 madd (bmm (bmm W state_cov) (transpose' W)) C))
             else (map (matmul H) state_mean, map (\<lambda>P. matmul (matmul H P) (mT H)) state_cov));
          test_var' = (if ndim (squeeze (of_bmat test_var)) > 2 then of_mat (diag E test_var)
                       else of_bmat test_var)
      in (squeeze (of_bmat test_mean), squeeze test_var'))"

text \<open>
  \<^verbatim>\<open>MarkovGP.prior_sample\<close>, for the inputs that \<^verbatim>\<open>posterior_sample\<close> passes: no input
  locations, or a one-dimensional array of them. The result has the shape
  \<^verbatim>\<open>[num_samps, N, func_dim, 1]\<close>.
\<close>

definition MarkovGP_prior_sample ::
  "'c routines \<Rightarrow> 'a MarkovGP_scheme \<Rightarrow> nat \<Rightarrow> vec option \<Rightarrow> int \<Rightarrow> bmat list" where
  "MarkovGP_prior_sample E self num_samps Xs seed =
     (let dt' = (case Xs of None \<Rightarrow> dt self | Some xs \<Rightarrow> [0] @ np_diff (sort xs));
          sd = state_dim self;
          H = measurement_model (kernel self);
          Pinf = stationary_covariance (kernel self);
          As = map (state_transition (kernel self)) dt';
          Qs = map (\<lambda>A. process_noise_covariance E A Pinf) As;
          jitter = scale (1 / 10 ^ 8) (eye sd);
          f0 = zeros3 (length dt') (func_dim self) 1;
          draw_full_sample = (\<lambda>(f_sample_i, i) _.
            (let m0 = matmul (cholesky E Pinf) (map (\<lambda>x. [x]) (normal E (seed - 1 - int i) sd));
                 sample_one_time_step = (\<lambda>(m, k) (A, Q).
                   (let chol_Q = cholesky E (madd Q jitter);
                        q_samp = matmul chol_Q
                                   (map (\<lambda>x. [x]) (normal E (seed + int i * int k + int k) sd));
                        m' = madd (matmul A m) q_samp;
                        f = matmul H m'
                    in ((m', k + 1), f)));
                 (final, f_sample) = scan sample_one_time_step (m0, 0 :: nat) (zip As Qs)
             in ((f_sample, i + 1), f_sample)));
          (final, f_samples) = scan draw_full_sample (f0, 0 :: nat) (replicate num_samps (0 :: real))
      in f_samples)"

text \<open>
  \<^verbatim>\<open>MarkovGP.posterior_sample\<close>. The smoothed samples are stacked by the scan, whatever
  their number of dimensions, and the last line broadcasts.
\<close>

definition MarkovGP_posterior_sample ::
  "'c routines \<Rightarrow> 'a MarkovGP_scheme \<Rightarrow> real ndarray12 option \<Rightarrow> nat \<Rightarrow> int \<Rightarrow> py_error + ndarray" where
  "MarkovGP_posterior_sample E self Xtest num_samps seed =
     (let (Xs, train_ind, test_ind) =
            (case Xtest of
               None \<Rightarrow> (None, [0..<num_data self], [0..<num_data self])
             | Some x \<Rightarrow>
                 (let (u, ind') = np_unique (concat (X self @ atleast_2d x))
                  in (Some u, take (num_data self) ind', drop (num_data self) ind')));
          post_mean = fst (MarkovGP_predict E self (map_option Arr1 Xs) None None);
          prior_samp = MarkovGP_prior_sample E self num_samps Xs seed;
          lik_chol = cholesky_batch E (covariance (pseudo_likelihood self));
          prior_samp_train = map (\<lambda>f. gather f train_ind) prior_samp;
          n = length train_ind;
          d = func_dim self;
          draws = normal E seed (num_samps * n * d);
          prior_samp_y =
            map (\<lambda>s. map (\<lambda>k. madd (prior_samp_train ! s ! k)
                                  (matmul (lik_chol ! k)
                                     (map (\<lambda>j. [draws ! ((s * n + k) * d + j)]) [0..<d])))
                         [0..<n])
                [0..<num_samps];
          smooth_prior_sample = (\<lambda>i prior_samp_y_i.
            (let smoothed_sample =
                   fst (MarkovGP_predict E self (map_option Arr1 Xs) None
                          (Some (prior_samp_y_i, covariance (pseudo_likelihood self))))
             in (i + 1, smoothed_sample)));
          (final, smoothed_samples) = scan smooth_prior_sample (0 :: nat) prior_samp_y
      in case broadcast (-) (of_mat (map (map (\<lambda>f. f ! 0 ! 0)) prior_samp)) (Ar smoothed_samples) of
           None \<Rightarrow> Inl ValueError
         | Some difference \<Rightarrow>
             (case broadcast (+) difference (Ar [post_mean]) of
                None \<Rightarrow> Inl ValueError
              | Some samples \<Rightarrow> take_columns samples test_ind))"

section \<open>The sparse Markov model\<close>

record SparseMarkovGP = MarkovGP +
  Z :: mat
  dz :: vec
  num_transitions :: nat
  conditional_mean :: "bmat option"

definition inf' :: real where
  \<comment> \<open>the local \<^verbatim>\<open>inf = np.array([[1e10]])\<close>\<close>
  "inf' = 10 ^ 10"

definition sort_axis0 :: "mat \<Rightarrow> mat" where
  \<comment> \<open>\<^verbatim>\<open>np.sort(Z, axis=0)\<close>: every column is sorted on its own\<close>
  "sort_axis0 A = mT (map sort (mT A))"

definition augment_Z :: "mat \<Rightarrow> mat" where
  \<comment> \<open>\<^verbatim>\<open>np.concatenate([-inf, Z, inf], axis=0)\<close> of the sorted \<^verbatim>\<open>Z\<close>\<close>
  "augment_Z Z2 = [[- inf']] @ sort_axis0 Z2 @ [[inf']]"

definition compute_dz :: "mat \<Rightarrow> vec" where
  \<comment> \<open>\<^verbatim>\<open>np.diff(self.Z.value[:, 0])\<close>\<close>
  "compute_dz Zaug = np_diff (map (\<lambda>r. r ! 0) Zaug)"

definition index_update_but_last :: "bmat \<Rightarrow> nat \<Rightarrow> nat \<Rightarrow> real \<Rightarrow> bmat" where
  \<comment> \<open>\<^verbatim>\<open>index_update(P, index[:-1, i, j], v)\<close>\<close>
  "index_update_but_last P i j v =
     map (\<lambda>A. A[i := (A ! i)[j := v]]) (butlast P) @ drop (length P - 1) P"

definition init_nat2 :: "nat \<Rightarrow> nat \<Rightarrow> bmat" where
  \<comment> \<open>the local \<^verbatim>\<open>nat2\<close> of the constructor, for state dimension \<open>sdim\<close> and \<open>T\<close> transitions\<close>
  "init_nat2 sdim T =
     (let eyes = tile (eye (2 * sdim)) T
      in index_update_but_last (map (scale (1 / 10 ^ 8)) eyes) sdim sdim (1 / 10 ^ 2))"

definition SparseMarkovGP_init ::
  "'c routines \<Rightarrow> Kernel \<Rightarrow> real ndarray12 \<Rightarrow> real option ndarray12 \<Rightarrow> real ndarray12 \<Rightarrow>
   real option ndarray12 option \<Rightarrow> bool option \<Rightarrow> SparseMarkovGP" where
  "SparseMarkovGP_init E kern Xin Yin Zin Rin par =
     (let base = MarkovGP_init E kern Xin Yin Rin par;
          Zaug = augment_Z (atleast_2d Zin);
          dz' = compute_dz Zaug;
          T = length dz';
          zeros = zeros3 T (2 * state_dim base) 1;
          eyes = tile (eye (2 * state_dim base)) T;
          n2 = init_nat2 (state_dim base) T;
          site = GaussianDistribution_init E zeros (inv_vmap E n2);
          (ind', nn) = set_z_stats E (X base) Zaug
      in MarkovGP.extend
           (base\<lparr>pseudo_likelihood := site,
                 posterior_mean := zeros,
                 posterior_variance := eyes,
                 mask_pseudo_y := None,
                 ind := ind',
                 num_neighbours := nn\<rparr>)
           (SparseMarkovGP.fields Zaug dz' T None))"







fun sum_natural_params_by_group ::
  "bmat \<times> bmat \<times> vec \<Rightarrow> nat \<times> mat \<times> mat \<Rightarrow> bmat \<times> bmat \<times> vec" where
  \<comment> \<open>Modelled from the spec: \<^verbatim>\<open>utils.sum_natural_params_by_group\<close>, the body of the scan, is
      not part of the file. By the spec's grouping rule it adds the contribution of one data
      point to the naturals of its interval and counts the point as a member of it.\<close>
  "sum_natural_params_by_group (nat1s, nat2s, count) (ind_m, nat1_m, nat2_m) =
     (nat1s[ind_m := madd (nat1s ! ind_m) nat1_m],
      nat2s[ind_m := madd (nat2s ! ind_m) nat2_m],
      count[ind_m := count ! ind_m + 1])"

definition SparseMarkovGP_group_natural_params ::
  "'a SparseMarkovGP_scheme \<Rightarrow> bmat \<Rightarrow> bmat \<Rightarrow> nat list option \<Rightarrow> bmat \<times> bmat" where
  "SparseMarkovGP_group_natural_params self nat1_n nat2_n batch_ind =
     (let ind' = (case batch_ind of None \<Rightarrow> ind self | Some b \<Rightarrow> gather (ind self) b);
          old_nat1 = nat1 (pseudo_likelihood self);
          old_nat2 = nat2 (pseudo_likelihood self);
          (new_nat1, new_nat2, counter) =
            foldl sum_natural_params_by_group
              (zeros_like old_nat1, zeros_like old_nat2, replicate (length old_nat1) 0)
              (zip ind' (zip nat1_n nat2_n));
          nn = map (\<lambda>v. max v 1) (num_neighbours self);
          n1 = map (\<lambda>k. madd (new_nat1 ! k) (scale (1 - counter ! k / nn ! k) (old_nat1 ! k)))
                 [0..<length new_nat1];
          n2 = map (\<lambda>k. madd (new_nat2 ! k) (scale (1 - counter ! k / nn ! k) (old_nat2 ! k)))
                 [0..<length new_nat2];
          n2' = badd n2 (scale (1 / 10 ^ 8) (eye (shape1 n2)))
      in (n1, n2'))"

section \<open>The jitter policy in the spec's words\<close>

text \<open>
  The spec's policy adds \<open>10\<^sup>-\<^sup>8\<close> times the identity to a matrix before it is inverted
  or factorised. The two definitions below follow these words, for comparison with
  \<open>reparametrise\<close> and \<open>SparseGP_compute_full_pseudo_lik\<close> above, which follow the source.
\<close>

definition spec_reparametrise :: "'c routines \<Rightarrow> bmat \<Rightarrow> bmat \<Rightarrow> bmat \<times> bmat" where
  "spec_reparametrise E param1 param2 =
     reparametrise E param1 (badd param2 (scale (1 / 10 ^ 8) (eye (shape1 param2))))"

definition spec_compute_full_pseudo_lik :: "'c routines \<Rightarrow> 'a SparseGP_scheme \<Rightarrow> bmat \<times> bmat" where
  "spec_compute_full_pseudo_lik E self =
     (let (nat1lik_full, nat2lik_full) = SparseGP_compute_full_pseudo_nat E self (obs_ind self);
          pseudo_var_full =
            inv_vmap E (badd nat2lik_full (scale (1 / 10 ^ 8) (eye (shape1 nat2lik_full))));
          pseudo_y_full = bmm pseudo_var_full nat1lik_full
      in (pseudo_y_full, pseudo_var_full))"

section \<open>Shapes\<close>

definition is_shape :: "nat \<Rightarrow> nat \<Rightarrow> mat \<Rightarrow> bool" where
  "is_shape r c A \<longleftrightarrow> length A = r \<and> (\<forall>row \<in> set A. length row = c)"

definition is_bshape :: "nat \<Rightarrow> nat \<Rightarrow> nat \<Rightarrow> bmat \<Rightarrow> bool" where
  \<comment> \<open>a batch of shape \<^verbatim>\<open>[n, r, c]\<close>\<close>
  "is_bshape n r c P \<longleftrightarrow> length P = n \<and> (\<forall>A \<in> set P. is_shape r c A)"

definition all_zeros :: "bmat \<Rightarrow> bool" where
  "all_zeros P \<longleftrightarrow> (\<forall>A \<in> set P. \<forall>row \<in> set A. \<forall>x \<in> set row. x = 0)"

definition is_scaled_eye :: "real \<Rightarrow> nat \<Rightarrow> mat \<Rightarrow> bool" where
  "is_scaled_eye c d A \<longleftrightarrow>
     is_shape d d A \<and> (\<forall>i < d. \<forall>j < d. A ! i ! j = (if i = j then c else 0))"

definition pseudo_lik_size :: "'a BaseModel_scheme \<Rightarrow> nat" where
  \<comment> \<open>the local \<^verbatim>\<open>pseudo_lik_size\<close> of \<^verbatim>\<open>BaseModel.__init__\<close>, read back from the model\<close>
  "pseudo_lik_size self = (if is_Independent (kernel self) then func_dim self else obs_dim self)"

definition zero_means :: "'a BaseModel_scheme \<Rightarrow> bool" where
  "zero_means self \<longleftrightarrow>
     all_zeros (mean (pseudo_likelihood self)) \<and> all_zeros (posterior_mean self)"

definition site_covariance_is :: "real \<Rightarrow> nat \<Rightarrow> nat \<Rightarrow> 'a BaseModel_scheme \<Rightarrow> bool" where
  \<comment> \<open>the site covariance is \<open>n\<close> copies of \<open>c\<close> times the identity of dimension \<open>d\<close>\<close>
  "site_covariance_is c n d self \<longleftrightarrow>
     length (covariance (pseudo_likelihood self)) = n
     \<and> (\<forall>A \<in> set (covariance (pseudo_likelihood self)). is_scaled_eye c d A)"

section \<open>Example inputs\<close>

text \<open>
  Concrete collaborators, used to run the model on small inputs. The inversions and solves
  of \<open>example_routines\<close> are exact on batches of diagonal matrices with a nonzero
  diagonal: there the inverse is the entrywise reciprocal of the diagonal, and the solution
  of \<open>A x = b\<close> divides row \<open>i\<close> of \<open>b\<close> by \<open>A ! i ! i\<close>. The other routines are stand-ins
  with the shapes of the real ones: the Cholesky factor of a matrix is the matrix itself,
  every draw of the generator with seed \<open>s\<close> is \<open>s\<close>, the filter, the smoother and the
  temporal conditional hand the pseudo-observations through as the state, the conditional
  statistics of the input \<open>x\<close> are the projector \<open>[1, x]\<close> and the covariance \<open>0\<close>, and
  \<^verbatim>\<open>utils.transpose\<close> raises on \<^verbatim>\<open>None\<close>. The kernel is the constant
  kernel \<open>k(x, x') = 1\<close>, with a state of dimension one that is observed directly.
\<close>

definition example_kernel :: Kernel where
  "example_kernel =
     \<lparr>K = (\<lambda>A B. replicate (length A) (replicate (length B) 1)),
      is_Independent = False,
      measurement_model = [[1]],
      stationary_covariance = [[1]],
      state_transition = (\<lambda>t. [[1]]),
      spatial_conditional = (\<lambda>Xs Rs. ([], []))\<rparr>"

definition example_routines :: "bmat routines" where
  "example_routines =
     \<lparr>cho_factor = (\<lambda>P. P),
      cho_solve = (\<lambda>P B. map2 (\<lambda>A Bk. map2 (\<lambda>a row. map (\<lambda>x. x / a) row) (np_diag A) Bk) P B),
      cho_factor_2d = (\<lambda>A. (A, False)),
      cho_solve_2d = (\<lambda>(A, low) B. map2 (\<lambda>a row. map (\<lambda>x. x / a) row) (np_diag A) B),
      cholesky = (\<lambda>A. A),
      cholesky_batch = (\<lambda>P. P),
      normal = (\<lambda>seed n. replicate n (of_int seed)),
      inv_vmap = map (map (map inverse)),
      solve = (\<lambda>A B. map2 (\<lambda>a row. map (\<lambda>x. x / a) row) (np_diag A) B),
      diag = map np_diag,
      input_admin = (\<lambda>Xin Yin Rin.
        (atleast_2d Xin, atleast_2d Yin, map (\<lambda>_. [None]) (atleast_2d Xin),
         0 # np_diff (concat (atleast_2d Xin)))),
      set_z_stats = (\<lambda>Xs Zs. (map (\<lambda>_. 0) Xs, replicate (length Zs - 1) 0)),
      compute_conditional_statistics = (\<lambda>x Zs kern i. ([[1, sum_list x]], [[0]])),
      temporal_conditional = (\<lambda>Xaug Xs m P G kern. (m, P)),
      gaussian_conditional = (\<lambda>kern m c Xs Xt. ([], [])),
      sparse_gaussian_conditional = (\<lambda>kern n1 n2 Xs Zs. (map (\<lambda>_. [5]) Zs, scale 7 (eye (length Zs)))),
      sparse_conditional_post_to_data = (\<lambda>kern m c Xs Zs. ([], [])),
      kalman_filter = (\<lambda>dts kern y v msk par. (0, y, v)),
      rauch_tung_striebel_smoother = (\<lambda>dts kern m P par. (m, P, P)),
      process_noise_covariance = (\<lambda>A P. zeros2 (length P) (length P)),
      on_gpu = False,
      transpose_None = Inl OperandIsNone\<rparr>"

text \<open>
  A sparse Markov model with one inducing point (two intervals) and three data points, the
  first in interval \<open>0\<close> and the other two in interval \<open>1\<close>, after some site updates.
\<close>

definition example_model :: SparseMarkovGP where
  "example_model =
     (SparseMarkovGP_init example_routines example_kernel
        (Arr1 [0, 1, 2]) (Arr1 [Some 0, Some 0, Some 0]) (Arr1 [1 / 2]) None None)
     \<lparr>pseudo_likelihood :=
        \<lparr>mean = [[[0], [0]], [[2], [3]]],
         covariance = [[[1, 0], [0, 1]], [[1 / 2, 0], [0, 1 / 2]]],
         nat1 = [[[0], [0]], [[4], [6]]],
         nat2 = [[[1, 0], [0, 1]], [[2, 0], [0, 2]]]\<rparr>,
      ind := [0, 1, 1],
      num_neighbours := [1, 2]\<rparr>"

section \<open>The inducing grid of the sparse Markov model\<close>

lemma one_col_eq:
  assumes "\<forall>r \<in> set A. length r = 1"
  shows "A = map (\<lambda>z. [z]) (concat A)"
  using assms
proof (induction A)
  case Nil
  then show ?case by simp
next
  case (Cons r A)
  then obtain z where "r = [z]" by (cases r) auto
  with Cons show ?case by simp
qed

lemma mT_column: "zs \<noteq> [] \<Longrightarrow> mT (map (\<lambda>z. [z]) zs) = [zs]"
proof (cases zs)
  case Nil
  assume "zs \<noteq> []"
  with Nil show ?thesis by simp
next
  case (Cons a as)
  have "ncols (map (\<lambda>z. [z]) zs) = 1"
    unfolding Cons ncols_def by simp
  moreover have "map (\<lambda>r. r ! 0) (map (\<lambda>z. [z]) zs) = zs"
    by (induction zs) simp_all
  ultimately show ?thesis
    unfolding mT_def by simp
qed

lemma mT_row: "mT [zs] = map (\<lambda>z. [z]) zs"
  by (rule nth_equalityI) (simp_all add: mT_def ncols_def)

lemma sort_axis0_column: "sort_axis0 (map (\<lambda>z. [z]) zs) = map (\<lambda>z. [z]) (sort zs)"
proof (cases "zs = []")
  case True
  then show ?thesis by (simp add: sort_axis0_def mT_def ncols_def)
next
  case False
  then show ?thesis by (simp add: sort_axis0_def mT_column mT_row)
qed

lemma column_augment_Z:
  assumes "\<forall>r \<in> set Z2. length r = 1"
  shows "map (\<lambda>r. r ! 0) (augment_Z Z2) = [- inf'] @ sort (concat Z2) @ [inf']"
proof -
  have "augment_Z Z2 = augment_Z (map (\<lambda>z. [z]) (concat Z2))"
    using one_col_eq [OF assms] by simp
  then show ?thesis
    by (simp add: augment_Z_def sort_axis0_column comp_def)
qed

lemma length_np_diff: "length (np_diff a) = length a - 1"
  by (simp add: np_diff_def)

lemma nth_np_diff:
  assumes "Suc k < length a"
  shows "np_diff a ! k = a ! Suc k - a ! k"
  using assms by (simp add: np_diff_def nth_tl nth_butlast)

lemma SparseMarkovGP_init_Z:
  "Z (SparseMarkovGP_init E kern Xin Yin Zin Rin par) = augment_Z (atleast_2d Zin)"
  by (simp add: SparseMarkovGP_init_def Let_def MarkovGP.defs SparseMarkovGP.defs split: prod.splits)

lemma SparseMarkovGP_init_dz:
  "dz (SparseMarkovGP_init E kern Xin Yin Zin Rin par) = compute_dz (augment_Z (atleast_2d Zin))"
  by (simp add: SparseMarkovGP_init_def Let_def MarkovGP.defs SparseMarkovGP.defs split: prod.splits)

lemma SparseMarkovGP_init_num_transitions:
  "num_transitions (SparseMarkovGP_init E kern Xin Yin Zin Rin par)
   = length (compute_dz (augment_Z (atleast_2d Zin)))"
  by (simp add: SparseMarkovGP_init_def Let_def MarkovGP.defs SparseMarkovGP.defs split: prod.splits)

text \<open>
  Claim C4, as stated: the stored inducing inputs are sorted, between two sentinels
  \<open>\<plusminus>\<infinity>\<close>. The sentinels of the constructor are the finite numbers \<open>\<plusminus>10\<^sup>1\<^sup>0\<close>, placed
  around the sorted inputs without comparing them: for the single inducing input
  \<open>2 \<sqdot> 10\<^sup>1\<^sup>0\<close> the stored grid is \<open>[-10\<^sup>1\<^sup>0, 2 \<sqdot> 10\<^sup>1\<^sup>0, 10\<^sup>1\<^sup>0]\<close>, which is not sorted.
\<close>

theorem C4_unsorted_counterexample:
  "\<not> sorted (map (\<lambda>r. r ! 0) (augment_Z (atleast_2d (Arr1 [2 * 10 ^ 10]))))"
  by (simp add: augment_Z_def sort_axis0_def mT_def ncols_def inf'_def)

text \<open>
  Claim C4, amended. For inducing inputs \<open>Z\<close> with one column, the constructor stores the
  sorted inputs with \<open>-10\<^sup>1\<^sup>0\<close> prepended and \<open>10\<^sup>1\<^sup>0\<close> appended; \<open>dz\<close> has one entry
  more than there are inducing inputs, \<open>num_transitions\<close> is that number, and
  \<open>dz[k] = Z[k+1] - Z[k]\<close> on the stored grid; the stored grid is sorted whenever every
  inducing input lies in \<open>[-10\<^sup>1\<^sup>0, 10\<^sup>1\<^sup>0]\<close>.
\<close>

theorem C4_inducing_grid:
  fixes E :: "'c routines" and kern Xin Yin Zin Rin par
  defines "self \<equiv> SparseMarkovGP_init E kern Xin Yin Zin Rin par"
  defines "col \<equiv> map (\<lambda>r. r ! 0) (Z self)"
  assumes one_column: "\<forall>r \<in> set (atleast_2d Zin). length r = 1"
  shows "col = [- (10 ^ 10)] @ sort (concat (atleast_2d Zin)) @ [10 ^ 10]
    \<and> length (dz self) = length (atleast_2d Zin) + 1
    \<and> num_transitions self = length (atleast_2d Zin) + 1
    \<and> (\<forall>k < length (atleast_2d Zin) + 1. dz self ! k = col ! (k + 1) - col ! k)
    \<and> ((\<forall>z \<in> set (concat (atleast_2d Zin)). - (10 ^ 10) \<le> z \<and> z \<le> 10 ^ 10) \<longrightarrow> sorted col)"
proof -
  let ?zs = "concat (atleast_2d Zin)"
  have len: "length ?zs = length (atleast_2d Zin)"
    using one_col_eq [OF one_column] by (metis length_map)
  have col: "col = [- (10 ^ 10)] @ sort ?zs @ [10 ^ 10]"
    unfolding col_def self_def SparseMarkovGP_init_Z
    using column_augment_Z [OF one_column] by (simp add: inf'_def)
  have dz: "dz self = np_diff col"
    unfolding col_def self_def SparseMarkovGP_init_dz SparseMarkovGP_init_Z compute_dz_def ..
  have lcol: "length col = length (atleast_2d Zin) + 2"
    using col len by simp
  have ldz: "length (dz self) = length (atleast_2d Zin) + 1"
    using dz lcol by (simp add: length_np_diff)
  then have nt: "num_transitions self = length (atleast_2d Zin) + 1"
    unfolding self_def SparseMarkovGP_init_num_transitions SparseMarkovGP_init_dz .
  have nth: "\<forall>k < length (atleast_2d Zin) + 1. dz self ! k = col ! (k + 1) - col ! k"
    using dz lcol by (simp add: nth_np_diff)
  have srt: "(\<forall>z \<in> set ?zs. - (10 ^ 10) \<le> z \<and> z \<le> 10 ^ 10) \<longrightarrow> sorted col"
    unfolding col by (auto simp: sorted_append)
  from col ldz nt nth srt show ?thesis by blast
qed

text \<open>The amended claim C4 on the inducing inputs \<open>[3, 1]\<close>.\<close>

theorem C4_inducing_grid_witness:
  "map (\<lambda>r. r ! 0)
     (Z (SparseMarkovGP_init example_routines example_kernel (Arr1 [0]) (Arr1 [Some 0])
          (Arr1 [3, 1]) None None))
   = [- (10 ^ 10), 1, 3, 10 ^ 10]
   \<and> dz (SparseMarkovGP_init example_routines example_kernel (Arr1 [0]) (Arr1 [Some 0])
          (Arr1 [3, 1]) None None) ! 1 = 2
   \<and> sorted (map (\<lambda>r. r ! 0)
     (Z (SparseMarkovGP_init example_routines example_kernel (Arr1 [0]) (Arr1 [Some 0])
          (Arr1 [3, 1]) None None)))"
proof -
  have one_column: "\<forall>r \<in> set (atleast_2d (Arr1 [3, 1 :: real])). length r = 1"
    by simp
  note grid = C4_inducing_grid [OF one_column, of example_routines example_kernel
      "Arr1 [0]" "Arr1 [Some 0]" None None]
  show ?thesis
    using grid by simp
qed

section \<open>Grouping of natural parameters in the sparse Markov model\<close>

lemma is_shape_nth: "is_shape r c A \<Longrightarrow> i < r \<Longrightarrow> length (A ! i) = c"
  by (simp add: is_shape_def)

lemma is_shape_madd: "is_shape r c A \<Longrightarrow> is_shape r c B \<Longrightarrow> is_shape r c (madd A B)"
  by (auto simp: is_shape_def madd_def set_zip)

lemma nth_madd:
  assumes "is_shape r c A" "is_shape r c B" "i < r" "j < c"
  shows "madd A B ! i ! j = A ! i ! j + B ! i ! j"
  using assms by (simp add: is_shape_def madd_def)

lemma is_shape_scale: "is_shape r c A \<Longrightarrow> is_shape r c (scale a A)"
  by (simp add: is_shape_def scale_def)

lemma nth_scale:
  assumes "is_shape r c A" "i < r" "j < c"
  shows "scale a A ! i ! j = a * A ! i ! j"
  using assms by (simp add: is_shape_def scale_def)

lemma is_shape_eye: "is_shape d d (eye d)"
  by (simp add: is_shape_def eye_def)

lemma nth_eye: "i < d \<Longrightarrow> j < d \<Longrightarrow> eye d ! i ! j = (if i = j then 1 else 0)"
  by (simp add: eye_def)

lemma is_shape_zeros: "is_shape r c A \<Longrightarrow> is_shape r c (map (map (\<lambda>_. 0)) A)"
  by (simp add: is_shape_def)

lemma nth_zeros:
  assumes "is_shape r c A" "i < r" "j < c"
  shows "map (map (\<lambda>_. 0::real)) A ! i ! j = 0"
  using assms by (simp add: is_shape_def)

lemma foldl_madd:
  assumes "is_shape r c A" "\<forall>M \<in> set Ms. is_shape r c M"
  shows "is_shape r c (foldl madd A Ms)
    \<and> (\<forall>i < r. \<forall>j < c. foldl madd A Ms ! i ! j = A ! i ! j + (\<Sum>M \<leftarrow> Ms. M ! i ! j))"
  using assms
proof (induction Ms arbitrary: A)
  case Nil
  then show ?case by simp
next
  case (Cons M Ms)
  have sh: "is_shape r c (madd A M)"
    using Cons.prems by (simp add: is_shape_madd)
  from Cons.IH [OF sh] Cons.prems
  show ?case by (simp add: nth_madd add.assoc)
qed

lemma scan_length:
  "foldl sum_natural_params_by_group (A, B, cnt) xs = (A', B', cnt')
   \<Longrightarrow> length A' = length A \<and> length B' = length B \<and> length cnt' = length cnt"
  by (induction xs arbitrary: A B cnt) (auto split: prod.splits)

lemma scan_nth:
  assumes "foldl sum_natural_params_by_group (A, B, cnt) xs = (A', B', cnt')"
  shows "(k < length A \<longrightarrow> A' ! k = foldl madd (A ! k) (map (\<lambda>x. fst (snd x)) (filter (\<lambda>x. fst x = k) xs)))
    \<and> (k < length B \<longrightarrow> B' ! k = foldl madd (B ! k) (map (\<lambda>x. snd (snd x)) (filter (\<lambda>x. fst x = k) xs)))
    \<and> (k < length cnt \<longrightarrow> cnt' ! k = cnt ! k + real (length (filter (\<lambda>x. fst x = k) xs)))"
  using assms
proof (induction xs arbitrary: A B cnt)
  case Nil
  then show ?case by simp
next
  case (Cons x xs)
  obtain i a b where x: "x = (i, a, b)" by (cases x) auto
  from Cons.prems have
    "foldl sum_natural_params_by_group
       (A[i := madd (A ! i) a], B[i := madd (B ! i) b], cnt[i := cnt ! i + 1]) xs = (A', B', cnt')"
    by (simp add: x)
  from Cons.IH [OF this] show ?case
    by (auto simp: x nth_list_update)
qed

lemma zip3_filter:
  assumes "length as = length is" "length bs = length is"
  shows "filter (\<lambda>x. fst x = k) (zip is (zip as bs))
       = map (\<lambda>n. (is ! n, as ! n, bs ! n)) (filter (\<lambda>n. is ! n = k) [0..<length is])"
proof -
  have "zip is (zip as bs) = map (\<lambda>n. (is ! n, as ! n, bs ! n)) [0..<length is]"
    using assms by (intro nth_equalityI) simp_all
  then show ?thesis by (simp add: filter_map comp_def)
qed


lemma nth_zeros_like: "k < length P \<Longrightarrow> zeros_like P ! k = map (map (\<lambda>_. 0)) (P ! k)"
  by (simp add: zeros_like_def)

lemma shape1_nth0: "P \<noteq> [] \<Longrightarrow> shape1 P = length (P ! 0)"
  by (cases P) (simp_all add: shape1_def)

lemma nth_badd: "k < length P \<Longrightarrow> badd P A ! k = madd (P ! k) A"
  by (simp add: badd_def)

text \<open>
  Claim C2. Let \<open>members\<close> be the positions of this update whose data point lies in
  interval \<open>k\<close>, \<open>c\<^sub>k\<close> their number and \<open>N\<^sub>k = max(num_neighbours\<^sub>k, 1)\<close>. Entry by entry,
  the first natural parameter that \<open>group_natural_params\<close> returns for interval \<open>k\<close> is the
  sum of the members' contributions plus \<open>(1 - c\<^sub>k / N\<^sub>k)\<close> times the stored one, and the
  second is the same with \<open>10\<^sup>-\<^sup>8\<close> added on the diagonal. The sites are \<open>D\<close> by \<open>1\<close> and \<open>D\<close>
  by \<open>D\<close>, and the update has one contribution for each of its data points.
\<close>

theorem C2_group_natural_params:
  fixes self :: "'a SparseMarkovGP_scheme" and nat1_n nat2_n batch_ind and k D :: nat
  defines "ind' \<equiv> (case batch_ind of None \<Rightarrow> ind self | Some b \<Rightarrow> gather (ind self) b)"
  defines "old1 \<equiv> nat1 (pseudo_likelihood self)"
  defines "old2 \<equiv> nat2 (pseudo_likelihood self)"
  defines "members \<equiv> {n. n < length ind' \<and> ind' ! n = k}"
  defines "resid \<equiv> 1 - real (card members) / max (num_neighbours self ! k) 1"
  defines "res \<equiv> SparseMarkovGP_group_natural_params self nat1_n nat2_n batch_ind"
  assumes len1: "length nat1_n = length ind'" and len2: "length nat2_n = length ind'"
    and lenold: "length old2 = length old1" and lennn: "length (num_neighbours self) = length old1"
    and sh1: "\<forall>A \<in> set old1 \<union> set nat1_n. is_shape D 1 A"
    and sh2: "\<forall>A \<in> set old2 \<union> set nat2_n. is_shape D D A"
    and k: "k < length old1"
  shows "(\<forall>i < D. fst res ! k ! i ! 0 = (\<Sum>n \<in> members. nat1_n ! n ! i ! 0) + resid * old1 ! k ! i ! 0)
    \<and> (\<forall>i < D. \<forall>j < D. snd res ! k ! i ! j =
          (\<Sum>n \<in> members. nat2_n ! n ! i ! j) + resid * old2 ! k ! i ! j
          + (if i = j then 1 / 10 ^ 8 else 0))"
proof -
  let ?ms = "filter (\<lambda>n. ind' ! n = k) [0..<length ind']"
  let ?xs = "zip ind' (zip nat1_n nat2_n)"
  obtain new1 new2 counter where scan:
    "foldl sum_natural_params_by_group
       (zeros_like old1, zeros_like old2, replicate (length old1) 0) ?xs = (new1, new2, counter)"
    by (metis prod_cases3)
  have lens: "length new1 = length old1" "length new2 = length old1" "length counter = length old1"
    using scan_length [OF scan] lenold by (simp_all add: zeros_like_def)
  have set_ms: "set ?ms = members" and dist_ms: "distinct ?ms"
    by (auto simp: members_def)
  have sum_ms: "(\<Sum>n \<leftarrow> ?ms. f n) = (\<Sum>n \<in> members. f n)" for f :: "nat \<Rightarrow> real"
    unfolding set_ms [symmetric] by (rule sum_list_distinct_conv_sum_set [OF dist_ms])
  have cnt: "counter ! k = real (card members)"
    using scan_nth [OF scan, of k] k set_ms dist_ms
    by (simp add: zip3_filter [OF len1 len2] distinct_card [symmetric])
  have old1k: "is_shape D 1 (old1 ! k)" and old2k: "is_shape D D (old2 ! k)"
    using sh1 sh2 k lenold by simp_all
  have contrib1: "\<forall>M \<in> set (map (\<lambda>n. nat1_n ! n) ?ms). is_shape D 1 M"
    using sh1 len1 by auto
  have contrib2: "\<forall>M \<in> set (map (\<lambda>n. nat2_n ! n) ?ms). is_shape D D M"
    using sh2 len2 by auto
  have new1k: "new1 ! k = foldl madd (map (map (\<lambda>_. 0)) (old1 ! k)) (map (\<lambda>n. nat1_n ! n) ?ms)"
    using scan_nth [OF scan, of k] k
    by (simp add: zeros_like_def zip3_filter [OF len1 len2] comp_def)
  have new2k: "new2 ! k = foldl madd (map (map (\<lambda>_. 0)) (old2 ! k)) (map (\<lambda>n. nat2_n ! n) ?ms)"
    using scan_nth [OF scan, of k] k lenold
    by (simp add: zeros_like_def zip3_filter [OF len1 len2] comp_def)
  have sum1: "is_shape D 1 (new1 ! k)
      \<and> (\<forall>i < D. \<forall>j < 1. new1 ! k ! i ! j = (\<Sum>n \<in> members. nat1_n ! n ! i ! j))"
    using foldl_madd [OF is_shape_zeros [OF old1k] contrib1]
    by (simp add: new1k nth_zeros [OF old1k] comp_def sum_ms)
  have sum2: "is_shape D D (new2 ! k)
      \<and> (\<forall>i < D. \<forall>j < D. new2 ! k ! i ! j = (\<Sum>n \<in> members. nat2_n ! n ! i ! j))"
    using foldl_madd [OF is_shape_zeros [OF old2k] contrib2]
    by (simp add: new2k nth_zeros [OF old2k] comp_def sum_ms)
  have nnk: "map (\<lambda>v. max v 1) (num_neighbours self) ! k = max (num_neighbours self ! k) 1"
    using k lennn by simp
  define n1 where "n1 = map (\<lambda>k. madd (new1 ! k)
      (scale (1 - counter ! k / map (\<lambda>v. max v 1) (num_neighbours self) ! k) (old1 ! k)))
      [0..<length new1]"
  define n2 where "n2 = map (\<lambda>k. madd (new2 ! k)
      (scale (1 - counter ! k / map (\<lambda>v. max v 1) (num_neighbours self) ! k) (old2 ! k)))
      [0..<length new2]"
  have res: "res = (n1, badd n2 (scale (1 / 10 ^ 8) (eye (shape1 n2))))"
    unfolding res_def SparseMarkovGP_group_natural_params_def
    using scan by (simp add: Let_def ind'_def old1_def old2_def n1_def n2_def)
  have n1k: "n1 ! k = madd (new1 ! k) (scale resid (old1 ! k))"
    using k lens by (simp add: n1_def cnt nnk resid_def)
  have n2k: "n2 ! k = madd (new2 ! k) (scale resid (old2 ! k))"
    using k lens by (simp add: n2_def cnt nnk resid_def)
  have sh_n2k: "is_shape D D (n2 ! k)"
    unfolding n2k using sum2 old2k by (simp add: is_shape_madd is_shape_scale)
  have n2_ne: "n2 \<noteq> []" and len_n2: "length n2 = length old1"
    using k lens by (auto simp: n2_def)
  have pos: "0 < length old1"
    using k by (cases old1) simp_all
  have "n2 ! 0 = madd (new2 ! 0) (scale (1 - counter ! 0 / map (\<lambda>v. max v 1) (num_neighbours self) ! 0) (old2 ! 0))"
    using pos lens by (simp add: n2_def)
  moreover have "length (new2 ! 0) = D"
  proof -
    have "new2 ! 0 = foldl madd (map (map (\<lambda>_. 0)) (old2 ! 0))
        (map (\<lambda>x. snd (snd x)) (filter (\<lambda>x. fst x = 0) ?xs))"
      using scan_nth [OF scan, of 0] pos lenold by (simp add: zeros_like_def)
    moreover have "is_shape D D (old2 ! 0)"
      using sh2 pos lenold by simp
    moreover have "\<forall>M \<in> set (map (\<lambda>x. snd (snd x)) (filter (\<lambda>x. fst x = 0) ?xs)). is_shape D D M"
      using sh2 by (auto dest!: set_zip_rightD)
    ultimately show ?thesis
      using foldl_madd [of D D "map (map (\<lambda>_. 0)) (old2 ! 0)"] is_shape_zeros
      by (simp add: is_shape_def)
  qed
  moreover have "length (old2 ! 0) = D"
    using sh2 pos lenold by (simp add: is_shape_def)
  ultimately have D: "shape1 n2 = D"
    using shape1_nth0 [OF n2_ne] by (simp add: madd_def scale_def)
  have part1: "\<forall>i < D. fst res ! k ! i ! 0 = (\<Sum>n \<in> members. nat1_n ! n ! i ! 0) + resid * old1 ! k ! i ! 0"
    using sum1 old1k
    by (simp add: res n1k nth_madd [where r = D and c = 1] is_shape_scale
        nth_scale [where r = D and c = 1])
  have part2: "\<forall>i < D. \<forall>j < D. snd res ! k ! i ! j =
          (\<Sum>n \<in> members. nat2_n ! n ! i ! j) + resid * old2 ! k ! i ! j
          + (if i = j then 1 / 10 ^ 8 else 0)"
    using sum2 old2k sh_n2k k len_n2
    by (simp add: res D nth_badd n2k nth_madd [where r = D and c = D] is_shape_scale is_shape_madd
        is_shape_eye nth_scale [where r = D and c = D] nth_eye)
  from part1 part2 show ?thesis ..
qed

text \<open>
  Claim C2 on \<open>example_model\<close>, updated with the second data point alone: one member of
  two neighbours in interval \<open>1\<close>, so half of the stored naturals remains.
\<close>

theorem C2_group_natural_params_witness:
  "fst (SparseMarkovGP_group_natural_params example_model [[[1], [2]]] [[[1, 0], [0, 1]]] (Some [1]))
     ! 1 ! 1 ! 0 = 5
   \<and> snd (SparseMarkovGP_group_natural_params example_model [[[1], [2]]] [[[1, 0], [0, 1]]] (Some [1]))
     ! 1 ! 1 ! 1 = 2 + 1 / 10 ^ 8"
proof -
  let ?ind = "case Some [1] of None \<Rightarrow> ind example_model | Some b \<Rightarrow> gather (ind example_model) b"
  have ind: "?ind = [1]"
    by (simp add: example_model_def gather_def)
  have site: "nat1 (pseudo_likelihood example_model) = [[[0], [0]], [[4], [6]]]"
    "nat2 (pseudo_likelihood example_model) = [[[1, 0], [0, 1]], [[2, 0], [0, 2]]]"
    "num_neighbours example_model = [1, 2]"
    by (simp_all add: example_model_def)
  have grp: "(\<forall>i < 2. fst (SparseMarkovGP_group_natural_params example_model [[[1], [2]]]
                 [[[1, 0], [0, 1]]] (Some [1])) ! 1 ! i ! 0
               = (\<Sum>n \<in> {0::nat}. [[[1], [2]]] ! n ! i ! 0)
                 + (1 - real (card {0::nat}) / max ([1, 2] ! 1) 1) * [[[0], [0]], [[4], [6]]] ! 1 ! i ! 0)
           \<and> (\<forall>i < 2. \<forall>j < 2. snd (SparseMarkovGP_group_natural_params example_model [[[1], [2]]]
                 [[[1, 0], [0, 1]]] (Some [1])) ! 1 ! i ! j
               = (\<Sum>n \<in> {0::nat}. [[[1, 0], [0, 1]]] ! n ! i ! j)
                 + (1 - real (card {0::nat}) / max ([1, 2] ! 1) 1)
                   * [[[1, 0], [0, 1]], [[2, 0], [0, 2]]] ! 1 ! i ! j
                 + (if i = j then 1 / 10 ^ 8 else 0))"
    using C2_group_natural_params [of "[[[1], [2]]]" example_model "Some [1]" "[[[1, 0], [0, 1]]]" 2 1]
    unfolding site ind by (simp add: is_shape_def Collect_conv_if cong: conj_cong)
  from grp have "fst (SparseMarkovGP_group_natural_params example_model [[[1], [2]]]
                 [[[1, 0], [0, 1]]] (Some [1])) ! 1 ! 1 ! 0 = 5"
    by simp
  moreover from grp have "snd (SparseMarkovGP_group_natural_params example_model [[[1], [2]]]
                 [[[1, 0], [0, 1]]] (Some [1])) ! 1 ! 1 ! 1 = 2 + 1 / 10 ^ 8"
    by simp
  ultimately show ?thesis ..
qed

section \<open>The containers at construction\<close>

lemma all_zeros_zeros3: "all_zeros (zeros3 n r c)"
  by (simp add: all_zeros_def zeros3_def zeros2_def)

lemma is_scaled_eye_scale: "is_scaled_eye c d (scale c (eye d))"
  by (simp add: is_scaled_eye_def is_shape_def scale_def eye_def)

lemma GaussianDistribution_init_mean_cov:
  "mean (GaussianDistribution_init E m c) = m" "covariance (GaussianDistribution_init E m c) = c"
  by (simp_all add: GaussianDistribution_init_def split: prod.splits)

lemma BaseModel_init_site:
  "pseudo_likelihood (BaseModel_init E kern Xin Yin fdim) =
     GaussianDistribution_init E
       (zeros3 (length (atleast_2d Xin)) (if is_Independent kern then fdim else ncols (atleast_2d Yin)) 1)
       (map (scale (10 ^ 2))
          (tile (eye (if is_Independent kern then fdim else ncols (atleast_2d Yin)))
             (length (atleast_2d Xin))))"
  by (simp add: BaseModel_init_def Let_def)

lemma BaseModel_init_posterior_mean:
  "posterior_mean (BaseModel_init E kern Xin Yin fdim) = zeros3 (length (atleast_2d Xin)) fdim 1"
  by (simp add: BaseModel_init_def Let_def)

lemma BaseModel_init_dims:
  "num_data (BaseModel_init E kern Xin Yin fdim) = length (atleast_2d Xin)"
  "func_dim (BaseModel_init E kern Xin Yin fdim) = fdim"
  "obs_dim (BaseModel_init E kern Xin Yin fdim) = ncols (atleast_2d Yin)"
  "kernel (BaseModel_init E kern Xin Yin fdim) = kern"
  by (simp_all add: BaseModel_init_def Let_def)

lemma BaseModel_init_containers:
  fixes E :: "'c routines" and kern Xin Yin fdim
  defines "self \<equiv> BaseModel_init E kern Xin Yin fdim"
  shows "zero_means self \<and> site_covariance_is 100 (num_data self) (pseudo_lik_size self) self"
  unfolding self_def zero_means_def site_covariance_is_def pseudo_lik_size_def
  by (auto simp: BaseModel_init_site BaseModel_init_posterior_mean BaseModel_init_dims
      GaussianDistribution_init_mean_cov all_zeros_zeros3 tile_def is_scaled_eye_scale)

lemma containers_cong:
  fixes a :: "'a BaseModel_scheme" and b :: "'b BaseModel_scheme"
  assumes "pseudo_likelihood a = pseudo_likelihood b" "posterior_mean a = posterior_mean b"
    "num_data a = num_data b" "func_dim a = func_dim b" "obs_dim a = obs_dim b"
    "kernel a = kernel b"
  shows "zero_means a = zero_means b"
    and "site_covariance_is c (num_data a) (pseudo_lik_size a) a
       = site_covariance_is c (num_data b) (pseudo_lik_size b) b"
  using assms by (simp_all add: zero_means_def site_covariance_is_def pseudo_lik_size_def)

lemma GP_init_containers:
  fixes E :: "'c routines" and kern Xin Yin
  defines "self \<equiv> GP_init E kern Xin Yin"
  shows "zero_means self \<and> site_covariance_is 100 (num_data self) (pseudo_lik_size self) self"
proof -
  let ?b = "BaseModel_init E kern Xin Yin 1"
  have "pseudo_likelihood self = pseudo_likelihood ?b" "posterior_mean self = posterior_mean ?b"
    "num_data self = num_data ?b" "func_dim self = func_dim ?b" "obs_dim self = obs_dim ?b"
    "kernel self = kernel ?b"
    by (simp_all add: self_def GP_init_def Let_def BaseModel.defs)
  from containers_cong [OF this] BaseModel_init_containers [of E kern Xin Yin 1]
  show ?thesis by simp
qed

lemma SparseGP_init_containers:
  fixes E :: "'c routines" and kern Xin Yin Zin
  defines "self \<equiv> SparseGP_init E kern Xin Yin Zin"
  shows "zero_means self \<and> site_covariance_is 100 (num_data self) (pseudo_lik_size self) self"
proof -
  let ?b = "GP_init E kern Xin Yin"
  have same: "pseudo_likelihood self = pseudo_likelihood ?b"
    "num_data self = num_data ?b" "func_dim self = func_dim ?b" "obs_dim self = obs_dim ?b"
    "kernel self = kernel ?b"
    by (simp_all add: self_def SparseGP_init_def Let_def GP.defs)
  have pm: "posterior_mean self = zeros3 (length (atleast_2d Zin)) (func_dim ?b) 1"
    by (simp add: self_def SparseGP_init_def Let_def GP.defs)
  from GP_init_containers [of E kern Xin Yin] same pm
  show ?thesis
    by (auto simp: zero_means_def site_covariance_is_def pseudo_lik_size_def all_zeros_zeros3)
qed

lemma MarkovGP_init_containers:
  fixes E :: "'c routines" and kern Xin Yin Rin par
  defines "self \<equiv> MarkovGP_init E kern Xin Yin Rin par"
  shows "zero_means self \<and> site_covariance_is 100 (num_data self) (pseudo_lik_size self) self"
proof -
  obtain X' Y' R' dt' where adm: "input_admin E Xin Yin Rin = (X', Y', R', dt')"
    by (metis prod_cases4)
  let ?b = "BaseModel_init E kern (Arr2 X') (Arr2 Y') (length (measurement_model kern))"
  have "pseudo_likelihood self = pseudo_likelihood ?b" "posterior_mean self = posterior_mean ?b"
    "num_data self = num_data ?b" "func_dim self = func_dim ?b" "obs_dim self = obs_dim ?b"
    "kernel self = kernel ?b"
    by (simp_all add: self_def MarkovGP_init_def adm Let_def BaseModel.defs)
  from containers_cong [OF this]
    BaseModel_init_containers [of E kern "Arr2 X'" "Arr2 Y'" "length (measurement_model kern)"]
  show ?thesis by simp
qed

lemma MarkovGP_init_state_dim:
  "state_dim (MarkovGP_init E kern Xin Yin Rin par) = length (stationary_covariance kern)"
  by (simp add: MarkovGP_init_def Let_def BaseModel.defs MarkovGP.defs split: prod.splits)

lemma SparseMarkovGP_init_site:
  fixes E :: "'c routines" and kern Xin Yin Zin Rin par
  defines "self \<equiv> SparseMarkovGP_init E kern Xin Yin Zin Rin par"
  shows "pseudo_likelihood self =
      GaussianDistribution_init E (zeros3 (num_transitions self) (2 * state_dim self) 1)
        (inv_vmap E (init_nat2 (state_dim self) (num_transitions self)))"
    and "posterior_mean self = zeros3 (num_transitions self) (2 * state_dim self) 1"
    and "state_dim self = length (stationary_covariance kern)"
  by (simp_all add: self_def SparseMarkovGP_init_def Let_def MarkovGP.defs SparseMarkovGP.defs
      MarkovGP_init_state_dim split: prod.splits)

lemma length_index_update_but_last: "length (index_update_but_last P i j v) = length P"
  by (cases "P = []") (simp_all add: index_update_but_last_def)

lemma nth_index_update_but_last:
  assumes "k < length P"
  shows "index_update_but_last P i j v ! k
       = (if Suc k < length P then (P ! k)[i := (P ! k ! i)[j := v]] else P ! k)"
proof (cases "Suc k < length P")
  case True
  then have "k < length P - 1" by simp
  then show ?thesis
    using True by (simp add: index_update_but_last_def nth_append nth_butlast)
next
  case False
  with assms have "k = length P - 1" by simp
  with assms False show ?thesis
    by (simp add: index_update_but_last_def nth_append)
qed

lemma length_init_nat2: "length (init_nat2 sdim T) = T"
  by (simp add: init_nat2_def Let_def length_index_update_but_last tile_def)

lemma nth_init_nat2:
  assumes "k < T"
  shows "init_nat2 sdim T ! k =
    (if Suc k < T
     then (scale (1 / 10 ^ 8) (eye (2 * sdim)))
            [sdim := (scale (1 / 10 ^ 8) (eye (2 * sdim)) ! sdim)[sdim := 1 / 10 ^ 2]]
     else scale (1 / 10 ^ 8) (eye (2 * sdim)))"
  using assms by (simp add: init_nat2_def Let_def nth_index_update_but_last tile_def)

lemma is_shape_nth_iff: "is_shape r c A \<longleftrightarrow> length A = r \<and> (\<forall>i < r. length (A ! i) = c)"
  by (auto simp: is_shape_def all_set_conv_all_nth)

lemma scaled_eye_entries:
  "is_shape d d (scale a (eye d))
   \<and> (\<forall>i < d. \<forall>j < d. scale a (eye d) ! i ! j = (if i = j then a else 0))"
  by (simp add: is_shape_def scale_def eye_def)

lemma update_entry:
  assumes "is_shape r c A"
  shows "is_shape r c (A[a := (A ! a)[b := v]])
    \<and> (\<forall>i < r. \<forall>j < c. A[a := (A ! a)[b := v]] ! i ! j = (if i = a \<and> j = b then v else A ! i ! j))"
proof -
  have row: "A[a := (A ! a)[b := v]] ! i = (if i = a then (A ! a)[b := v] else A ! i)"
    if "i < r" for i
    using that assms by (simp add: is_shape_nth_iff nth_list_update)
  have len: "length (A ! i) = c" if "i < r" for i
    using that assms by (simp add: is_shape_nth_iff)
  have "is_shape r c (A[a := (A ! a)[b := v]])"
    using assms by (simp add: is_shape_nth_iff row)
  moreover have "\<forall>i < r. \<forall>j < c. A[a := (A ! a)[b := v]] ! i ! j
      = (if i = a \<and> j = b then v else A ! i ! j)"
    by (simp add: row len nth_list_update)
  ultimately show ?thesis ..
qed

lemma init_nat2_entries:
  assumes "k < T"
  shows "is_shape (2 * sdim) (2 * sdim) (init_nat2 sdim T ! k)
    \<and> (\<forall>i < 2 * sdim. \<forall>j < 2 * sdim. init_nat2 sdim T ! k ! i ! j =
          (if i = j then (if i = sdim \<and> Suc k < T then 1 / 10 ^ 2 else 1 / 10 ^ 8) else 0))"
proof (cases "Suc k < T")
  case True
  from update_entry [of "2 * sdim" "2 * sdim" "scale (1 / 10 ^ 8) (eye (2 * sdim))" sdim sdim "1 / 10 ^ 2"]
    scaled_eye_entries [of "2 * sdim" "1 / 10 ^ 8"]
  show ?thesis
    using assms True by (auto simp: nth_init_nat2)
next
  case False
  with scaled_eye_entries [of "2 * sdim" "1 / 10 ^ 8"] assms
  show ?thesis by (simp add: nth_init_nat2)
qed

lemma sum_list_map2:
  "sum_list (map2 f xs ys) = (\<Sum>k < min (length xs) (length ys). f (xs ! k) (ys ! k))"
  by (simp add: sum_list_sum_nth atLeast0LessThan)

lemma nth_matmul:
  assumes A: "is_shape r n A" and B: "is_shape n c B" and n: "0 < n" and i: "i < r" and j: "j < c"
  shows "matmul A B ! i ! j = (\<Sum>k < n. A ! i ! k * B ! k ! j)"
proof -
  from B n have "ncols B = c"
    by (cases B) (simp_all add: is_shape_def ncols_def)
  moreover from A i have "length (A ! i) = n"
    by (simp add: is_shape_def)
  moreover from B have "length B = n"
    by (simp add: is_shape_def)
  ultimately show ?thesis
    using A i j by (simp add: matmul_def is_shape_def sum_list_map2)
qed

lemma left_inverse_of_diagonal:
  assumes C: "is_shape n n C" and N: "is_shape n n N"
    and diag: "\<forall>i < n. \<forall>j < n. N ! i ! j = (if i = j then d j else 0)"
    and nz: "\<forall>j < n. d j \<noteq> 0"
    and inv: "matmul C N = eye n"
    and i: "i < n" and j: "j < n"
  shows "C ! i ! j = (if i = j then 1 / d j else 0)"
proof -
  from i have n: "0 < n" by simp
  have "matmul C N ! i ! j = (\<Sum>k < n. C ! i ! k * N ! k ! j)"
    by (rule nth_matmul [OF C N n i j])
  also have "\<dots> = (\<Sum>k < n. if k = j then C ! i ! j * d j else 0)"
    using diag j by (intro sum.cong) auto
  also have "\<dots> = C ! i ! j * d j"
    using j by simp
  finally have "C ! i ! j * d j = (if i = j then 1 else 0)"
    using inv i j by (simp add: eye_def)
  with nz j show ?thesis
    by (auto simp: field_simps)
qed

subsection \<open>The example models\<close>

lemma example_covariance:
  "covariance (pseudo_likelihood
     (SparseMarkovGP_init example_routines example_kernel (Arr1 [0]) (Arr1 [Some 0]) (Arr1 [0]) None None))
   = [[[10 ^ 8, 0], [0, 10 ^ 2]], [[10 ^ 8, 0], [0, 10 ^ 8]]]"
  by code_simp

lemma example_init_nat2:
  "init_nat2 (Suc 0) 2 = [[[1 / 10 ^ 8, 0], [0, 1 / 10 ^ 2]], [[1 / 10 ^ 8, 0], [0, 1 / 10 ^ 8]]]"
  by code_simp

lemma example_inverse:
  "is_shape 2 2 (covariance (pseudo_likelihood
     (SparseMarkovGP_init example_routines example_kernel (Arr1 [0]) (Arr1 [Some 0]) (Arr1 [0]) None None)) ! 0)"
  "is_shape 2 2 (covariance (pseudo_likelihood
     (SparseMarkovGP_init example_routines example_kernel (Arr1 [0]) (Arr1 [Some 0]) (Arr1 [0]) None None)) ! 1)"
  "matmul (covariance (pseudo_likelihood
     (SparseMarkovGP_init example_routines example_kernel (Arr1 [0]) (Arr1 [Some 0]) (Arr1 [0]) None None)) ! 0)
     (init_nat2 1 2 ! 0) = eye 2"
  "matmul (covariance (pseudo_likelihood
     (SparseMarkovGP_init example_routines example_kernel (Arr1 [0]) (Arr1 [Some 0]) (Arr1 [0]) None None)) ! 1)
     (init_nat2 1 2 ! 1) = eye 2"
  by code_simp+

lemma example_dims:
  "state_dim (SparseMarkovGP_init example_routines example_kernel (Arr1 [0]) (Arr1 [Some 0]) (Arr1 [0]) None None) = 1"
  "num_transitions (SparseMarkovGP_init example_routines example_kernel (Arr1 [0]) (Arr1 [Some 0]) (Arr1 [0]) None None) = 2"
  by code_simp+

lemma example_sizes:
  "num_data (GP_init example_routines example_kernel (Arr1 [0, 1]) (Arr1 [Some 0, None])) = 2"
  "pseudo_lik_size (GP_init example_routines example_kernel (Arr1 [0, 1]) (Arr1 [Some 0, None])) = 1"
  "num_data (SparseGP_init example_routines example_kernel (Arr1 [0, 1]) (Arr1 [Some 0, None]) (Arr1 [0])) = 2"
  "pseudo_lik_size (SparseGP_init example_routines example_kernel (Arr1 [0, 1]) (Arr1 [Some 0, None]) (Arr1 [0])) = 1"
  "num_data (MarkovGP_init example_routines example_kernel (Arr1 [0, 1]) (Arr1 [Some 0, None]) None None) = 2"
  "pseudo_lik_size (MarkovGP_init example_routines example_kernel (Arr1 [0, 1]) (Arr1 [Some 0, None]) None None) = 1"
  "state_dim (SparseMarkovGP_init example_routines example_kernel (Arr1 [0, 1]) (Arr1 [Some 0, None])
     (Arr1 [0]) None None) = 1"
  "num_transitions (SparseMarkovGP_init example_routines example_kernel (Arr1 [0, 1]) (Arr1 [Some 0, None])
     (Arr1 [0]) None None) = 2"
  by code_simp+

subsection \<open>Claim C5\<close>

text \<open>
  Claim C5, as stated: every model is constructed with a site covariance of \<open>100\<close> times the
  identity. The sparse Markov model with a state of dimension one and one inducing point has
  two sites of dimension two; their covariance at construction is the inverse of the initial
  precision, with \<open>10\<^sup>8\<close> in its first diagonal entry.
\<close>

theorem C5_sparse_markov_covariance_counterexample:
  "\<not> site_covariance_is 100 2 2
       (SparseMarkovGP_init example_routines example_kernel (Arr1 [0]) (Arr1 [Some 0]) (Arr1 [0]) None None)"
proof
  let ?self = "SparseMarkovGP_init example_routines example_kernel (Arr1 [0]) (Arr1 [Some 0]) (Arr1 [0]) None None"
  assume "site_covariance_is 100 2 2 ?self"
  then have "is_scaled_eye 100 2 (covariance (pseudo_likelihood ?self) ! 0)"
    by (simp add: site_covariance_is_def)
  then have "covariance (pseudo_likelihood ?self) ! 0 ! 0 ! 0 = 100"
    by (simp add: is_scaled_eye_def)
  then show False
    by (simp add: example_covariance)
qed

text \<open>
  Claim C5, amended. \<open>GP\<close>, \<open>SparseGP\<close> and \<open>MarkovGP\<close> are constructed with zero site and
  posterior means and with a site covariance of \<open>100\<close> times the identity for each data point.
  \<open>SparseMarkovGP\<close> is constructed with zero site and posterior means; its site covariance
  is the batched inverse of the initial precision \<open>init_nat2\<close> (claim C6), not \<open>100\<close> times
  the identity.
\<close>

theorem C5_containers_at_construction:
  fixes E :: "'c routines" and kern Xin Yin Zin Rin par
  defines "gp \<equiv> GP_init E kern Xin Yin"
  defines "sgp \<equiv> SparseGP_init E kern Xin Yin Zin"
  defines "mgp \<equiv> MarkovGP_init E kern Xin Yin Rin par"
  defines "smgp \<equiv> SparseMarkovGP_init E kern Xin Yin Zin Rin par"
  shows "zero_means gp \<and> site_covariance_is 100 (num_data gp) (pseudo_lik_size gp) gp
    \<and> zero_means sgp \<and> site_covariance_is 100 (num_data sgp) (pseudo_lik_size sgp) sgp
    \<and> zero_means mgp \<and> site_covariance_is 100 (num_data mgp) (pseudo_lik_size mgp) mgp
    \<and> zero_means smgp
    \<and> covariance (pseudo_likelihood smgp)
        = inv_vmap E (init_nat2 (state_dim smgp) (num_transitions smgp))"
proof -
  have "zero_means smgp"
    unfolding smgp_def zero_means_def
    by (simp add: SparseMarkovGP_init_site GaussianDistribution_init_mean_cov all_zeros_zeros3)
  moreover have "covariance (pseudo_likelihood smgp)
        = inv_vmap E (init_nat2 (state_dim smgp) (num_transitions smgp))"
    unfolding smgp_def
    by (simp add: SparseMarkovGP_init_site(1) GaussianDistribution_init_mean_cov)
  ultimately show ?thesis
    unfolding gp_def sgp_def mgp_def
    using GP_init_containers [of E kern Xin Yin] SparseGP_init_containers [of E kern Xin Yin Zin]
      MarkovGP_init_containers [of E kern Xin Yin Rin par]
    by simp
qed

text \<open>The amended claim C5 on two data points, the second one missing, and one inducing point.\<close>

theorem C5_containers_at_construction_witness:
  "zero_means (GP_init example_routines example_kernel (Arr1 [0, 1]) (Arr1 [Some 0, None]))
   \<and> site_covariance_is 100 2 1
       (GP_init example_routines example_kernel (Arr1 [0, 1]) (Arr1 [Some 0, None]))
   \<and> zero_means (SparseGP_init example_routines example_kernel (Arr1 [0, 1]) (Arr1 [Some 0, None]) (Arr1 [0]))
   \<and> site_covariance_is 100 2 1
       (SparseGP_init example_routines example_kernel (Arr1 [0, 1]) (Arr1 [Some 0, None]) (Arr1 [0]))
   \<and> zero_means (MarkovGP_init example_routines example_kernel (Arr1 [0, 1]) (Arr1 [Some 0, None]) None None)
   \<and> site_covariance_is 100 2 1
       (MarkovGP_init example_routines example_kernel (Arr1 [0, 1]) (Arr1 [Some 0, None]) None None)
   \<and> zero_means (SparseMarkovGP_init example_routines example_kernel (Arr1 [0, 1]) (Arr1 [Some 0, None])
       (Arr1 [0]) None None)
   \<and> covariance (pseudo_likelihood
       (SparseMarkovGP_init example_routines example_kernel (Arr1 [0, 1]) (Arr1 [Some 0, None])
          (Arr1 [0]) None None))
     = inv_vmap example_routines (init_nat2 1 2)"
  using C5_containers_at_construction [of example_routines example_kernel "Arr1 [0, 1]"
      "Arr1 [Some 0, None]" "Arr1 [0]" None None]
  unfolding example_sizes .

subsection \<open>Claim C6\<close>

text \<open>
  Claim C6, as stated: the initial site covariance has \<open>10\<^sup>-\<^sup>2\<close> in the diagonal entry
  of index \<open>S\<close> and \<open>10\<^sup>-\<^sup>8\<close> in the others. These are the values of the precision
  that the constructor inverts, so the covariance has \<open>10\<^sup>2\<close> there; and the last interval
  keeps \<open>10\<^sup>-\<^sup>8\<close> in the entry of index \<open>S\<close> of its precision.
\<close>

theorem C6_site_covariance_counterexample:
  "covariance (pseudo_likelihood
     (SparseMarkovGP_init example_routines example_kernel (Arr1 [0]) (Arr1 [Some 0]) (Arr1 [0]) None None))
     ! 0 ! 1 ! 1 \<noteq> 1 / 10 ^ 2
   \<and> init_nat2 1 2 ! 1 ! 1 ! 1 \<noteq> 1 / 10 ^ 2"
  by (simp add: example_covariance example_init_nat2)

text \<open>
  Claim C6, amended. With \<open>S\<close> the state dimension and \<open>T\<close> the number of intervals, the
  constructor stores as site covariance the batched inverse \<open>inv_vmap\<close> of a precision
  of \<open>T\<close> diagonal matrices of dimension \<open>2S\<close>: the diagonal entry of index \<open>S\<close> is
  \<open>10\<^sup>-\<^sup>2\<close> in every interval but the last, every other diagonal entry is \<open>10\<^sup>-\<^sup>8\<close>, and
  the off-diagonal entries are zero. Wherever the stored covariance of an interval is a
  left inverse of that precision, it is diagonal, with \<open>10\<^sup>2\<close> and \<open>10\<^sup>8\<close> in the
  respective entries.
\<close>

theorem C6_initial_site_precision:
  fixes E :: "'c routines" and kern Xin Yin Zin Rin par
  defines "self \<equiv> SparseMarkovGP_init E kern Xin Yin Zin Rin par"
  defines "S \<equiv> state_dim self"
  defines "T \<equiv> num_transitions self"
  defines "N2 \<equiv> init_nat2 S T"
  defines "Cov \<equiv> covariance (pseudo_likelihood self)"
  shows "Cov = inv_vmap E N2 \<and> length N2 = T
    \<and> (\<forall>k < T. is_shape (2 * S) (2 * S) (N2 ! k)
          \<and> (\<forall>i < 2 * S. \<forall>j < 2 * S. N2 ! k ! i ! j =
                (if i = j then (if i = S \<and> Suc k < T then 1 / 10 ^ 2 else 1 / 10 ^ 8) else 0)))
    \<and> (\<forall>k < T. is_shape (2 * S) (2 * S) (Cov ! k) \<and> matmul (Cov ! k) (N2 ! k) = eye (2 * S) \<longrightarrow>
          (\<forall>i < 2 * S. \<forall>j < 2 * S. Cov ! k ! i ! j =
                (if i = j then (if i = S \<and> Suc k < T then 10 ^ 2 else 10 ^ 8) else 0)))"
proof -
  have cov: "Cov = inv_vmap E N2"
    unfolding Cov_def N2_def S_def T_def self_def
    by (simp add: SparseMarkovGP_init_site(1) GaussianDistribution_init_mean_cov)
  have len: "length N2 = T"
    by (simp add: N2_def length_init_nat2)
  have entries: "\<forall>k < T. is_shape (2 * S) (2 * S) (N2 ! k)
          \<and> (\<forall>i < 2 * S. \<forall>j < 2 * S. N2 ! k ! i ! j =
                (if i = j then (if i = S \<and> Suc k < T then 1 / 10 ^ 2 else 1 / 10 ^ 8) else 0))"
    unfolding N2_def using init_nat2_entries by blast
  have inverse: "Cov ! k ! i ! j = (if i = j then (if i = S \<and> Suc k < T then 10 ^ 2 else 10 ^ 8) else 0)"
    if k: "k < T" and sh: "is_shape (2 * S) (2 * S) (Cov ! k)"
      and inv: "matmul (Cov ! k) (N2 ! k) = eye (2 * S)" and i: "i < 2 * S" and j: "j < 2 * S"
    for k i j
  proof -
    define d :: "nat \<Rightarrow> real" where "d j = (if j = S \<and> Suc k < T then 1 / 10 ^ 2 else 1 / 10 ^ 8)" for j
    have diag: "\<forall>i < 2 * S. \<forall>j < 2 * S. N2 ! k ! i ! j = (if i = j then d j else 0)"
      using entries k by (simp add: d_def)
    have nz: "\<forall>j < 2 * S. d j \<noteq> 0"
      by (simp add: d_def)
    from left_inverse_of_diagonal [OF sh _ diag nz inv i j] entries k
    have "Cov ! k ! i ! j = (if i = j then 1 / d j else 0)"
      by simp
    then show ?thesis
      by (simp add: d_def)
  qed
  from cov len entries inverse show ?thesis
    by blast
qed

text \<open>The amended claim C6 on a state of dimension one and one inducing point.\<close>

theorem C6_initial_site_precision_witness:
  "init_nat2 1 2 ! 0 ! 1 ! 1 = 1 / 10 ^ 2
   \<and> init_nat2 1 2 ! 1 ! 1 ! 1 = 1 / 10 ^ 8
   \<and> covariance (pseudo_likelihood
     (SparseMarkovGP_init example_routines example_kernel (Arr1 [0]) (Arr1 [Some 0]) (Arr1 [0]) None None))
     ! 0 ! 1 ! 1 = 10 ^ 2
   \<and> covariance (pseudo_likelihood
     (SparseMarkovGP_init example_routines example_kernel (Arr1 [0]) (Arr1 [Some 0]) (Arr1 [0]) None None))
     ! 1 ! 1 ! 1 = 10 ^ 8"
proof -
  let ?self = "SparseMarkovGP_init example_routines example_kernel (Arr1 [0]) (Arr1 [Some 0]) (Arr1 [0]) None None"
  note site = C6_initial_site_precision [of example_routines example_kernel "Arr1 [0]" "Arr1 [Some 0]" "Arr1 [0]" None None,
      unfolded example_dims]
  have inv: "is_shape (2 * 1) (2 * 1) (covariance (pseudo_likelihood ?self) ! k)
    \<and> matmul (covariance (pseudo_likelihood ?self) ! k) (init_nat2 1 2 ! k) = eye (2 * 1)" if "k < 2" for k
  proof -
    from that have "k = 0 \<or> k = 1" by auto
    then show ?thesis
      using example_inverse by auto
  qed
  note n2 = site [THEN conjunct2, THEN conjunct2, THEN conjunct1, rule_format, THEN conjunct2, rule_format]
  note cv = site [THEN conjunct2, THEN conjunct2, THEN conjunct2, rule_format]
  have "init_nat2 1 2 ! 0 ! 1 ! 1 = 1 / 10 ^ 2"
    using n2 [of 0 1 1] by simp
  moreover have "init_nat2 1 2 ! 1 ! 1 ! 1 = 1 / 10 ^ 8"
    using n2 [of 1 1 1] by simp
  moreover have "covariance (pseudo_likelihood ?self) ! 0 ! 1 ! 1 = 10 ^ 2"
    using cv [of 0 1 1] inv [of 0] by simp
  moreover have "covariance (pseudo_likelihood ?self) ! 1 ! 1 ! 1 = 10 ^ 8"
    using cv [of 1 1 1] inv [of 1] by simp
  ultimately show ?thesis by simp
qed

section \<open>Jitter before inversion\<close>

lemma badd_jitter_entries:
  assumes "\<forall>A \<in> set P. is_shape d d A" and "k < length P" and "i < d" and "j < d"
  shows "badd P (scale a (eye d)) ! k ! i ! j = P ! k ! i ! j + (if i = j then a else 0)"
proof -
  have "is_shape d d (P ! k)"
    using assms(1,2) by simp
  then show ?thesis
    using assms(2-4) scaled_eye_entries [of d a]
    by (simp add: nth_badd nth_madd [where r = d and c = d])
qed

lemma example_pseudo_nat:
  "snd (SparseGP_compute_full_pseudo_nat example_routines
     (SparseGP_init example_routines example_kernel (Arr1 [0, 1]) (Arr1 [Some 0, Some 1]) (Arr1 [0]))
     (obs_ind (SparseGP_init example_routines example_kernel (Arr1 [0, 1]) (Arr1 [Some 0, Some 1]) (Arr1 [0]))))
   = [[[1 / 100]], [[1 / 100]]]"
  by code_simp

text \<open>
  Claim C3, as stated: the Cholesky solves of \<open>reparametrise\<close> and the inversion of
  \<open>SparseGP.compute_full_pseudo_lik\<close> work on the matrix plus \<open>10\<^sup>-\<^sup>8\<close> times the
  identity. With exact routines on one-by-one matrices, \<open>reparametrise\<close> of the mean \<open>3\<close>
  and the covariance \<open>1\<close> returns \<open>(3, 1)\<close>, not \<open>(3, 1) / (1 + 10\<^sup>-\<^sup>8)\<close>; and the pseudo
  variance of a sparse model with one inducing point and site precisions of \<open>1/100\<close> is
  \<open>1 / (1/100 + 10\<^sup>-\<^sup>1\<^sup>2)\<close>, not \<open>1 / (1/100 + 10\<^sup>-\<^sup>8)\<close>.
\<close>

theorem C3_jitter_counterexample:
  "reparametrise example_routines [[[3]]] [[[1]]] \<noteq> spec_reparametrise example_routines [[[3]]] [[[1]]]
   \<and> SparseGP_compute_full_pseudo_lik example_routines
        (SparseGP_init example_routines example_kernel (Arr1 [0, 1]) (Arr1 [Some 0, Some 1]) (Arr1 [0]))
     \<noteq> spec_compute_full_pseudo_lik example_routines
        (SparseGP_init example_routines example_kernel (Arr1 [0, 1]) (Arr1 [Some 0, Some 1]) (Arr1 [0]))"
  by code_simp

text \<open>
  Claim C3, amended. \<open>GaussianDistribution.reparametrise\<close> passes its second argument to
  \<open>cho_factor\<close> as it is, with no jitter; \<open>SparseGP.compute_full_pseudo_lik\<close> inverts the
  projected second natural parameter plus \<open>10\<^sup>-\<^sup>1\<^sup>2\<close> (not \<open>10\<^sup>-\<^sup>8\<close>) times the identity.
\<close>

theorem C3_jitter_before_inversion:
  fixes E :: "'c routines" and self :: "'a SparseGP_scheme"
  defines "n1 \<equiv> fst (SparseGP_compute_full_pseudo_nat E self (obs_ind self))"
  defines "n2 \<equiv> snd (SparseGP_compute_full_pseudo_nat E self (obs_ind self))"
  defines "J \<equiv> badd n2 (scale (1 / 10 ^ 12) (eye (shape1 n2)))"
  shows "reparametrise E param1 param2 =
           (cho_solve E (cho_factor E param2) param1,
            cho_solve E (cho_factor E param2) (tile (eye (shape1 param2)) (length param2)))
    \<and> SparseGP_compute_full_pseudo_lik E self = (bmm (inv_vmap E J) n1, inv_vmap E J)
    \<and> length J = length n2
    \<and> ((\<forall>A \<in> set n2. is_shape (shape1 n2) (shape1 n2) A) \<longrightarrow>
        (\<forall>k < length n2. \<forall>i < shape1 n2. \<forall>j < shape1 n2.
           J ! k ! i ! j = n2 ! k ! i ! j + (if i = j then 1 / 10 ^ 12 else 0)))"
proof -
  have "reparametrise E param1 param2 =
           (cho_solve E (cho_factor E param2) param1,
            cho_solve E (cho_factor E param2) (tile (eye (shape1 param2)) (length param2)))"
    by (simp add: reparametrise_def Let_def)
  moreover have "SparseGP_compute_full_pseudo_lik E self = (bmm (inv_vmap E J) n1, inv_vmap E J)"
    by (simp add: SparseGP_compute_full_pseudo_lik_def Let_def J_def n1_def n2_def split: prod.splits)
  moreover have "length J = length n2"
    by (simp add: J_def badd_def)
  moreover have "(\<forall>A \<in> set n2. is_shape (shape1 n2) (shape1 n2) A) \<longrightarrow>
        (\<forall>k < length n2. \<forall>i < shape1 n2. \<forall>j < shape1 n2.
           J ! k ! i ! j = n2 ! k ! i ! j + (if i = j then 1 / 10 ^ 12 else 0))"
    unfolding J_def using badd_jitter_entries by blast
  ultimately show ?thesis by blast
qed

text \<open>The amended claim C3 on a sparse model with one inducing point.\<close>

theorem C3_jitter_before_inversion_witness:
  "snd (SparseGP_compute_full_pseudo_lik example_routines
     (SparseGP_init example_routines example_kernel (Arr1 [0, 1]) (Arr1 [Some 0, Some 1]) (Arr1 [0])))
   = inv_vmap example_routines (badd [[[1 / 100]], [[1 / 100]]] (scale (1 / 10 ^ 12) (eye 1)))
   \<and> badd [[[1 / 100]], [[1 / 100]]] (scale (1 / 10 ^ 12) (eye 1)) ! 0 ! 0 ! 0 = 1 / 100 + 1 / 10 ^ 12"
proof -
  let ?self = "SparseGP_init example_routines example_kernel (Arr1 [0, 1]) (Arr1 [Some 0, Some 1]) (Arr1 [0])"
  have sh: "shape1 [[[1 / 100 :: real]], [[1 / 100]]] = 1"
    by (simp add: shape1_def)
  note jit = C3_jitter_before_inversion [where E = example_routines and self = ?self
      and ?param1.0 = "[]" and ?param2.0 = "[]", unfolded example_pseudo_nat sh]
  have shapes: "\<forall>A \<in> set [[[1 / 100 :: real]], [[1 / 100]]]. is_shape 1 1 A"
    by (simp add: is_shape_def)
  from jit have "snd (SparseGP_compute_full_pseudo_lik example_routines ?self)
      = inv_vmap example_routines (badd [[[1 / 100]], [[1 / 100]]] (scale (1 / 10 ^ 12) (eye 1)))"
    by simp
  moreover from jit shapes
  have "badd [[[1 / 100]], [[1 / 100]]] (scale (1 / 10 ^ 12) (eye 1)) ! 0 ! 0 ! 0 = 1 / 100 + 1 / 10 ^ 12"
    by simp
  ultimately show ?thesis ..
qed

section \<open>The two parameterisations of the pseudo-likelihood store\<close>

lemma ncols_is_shape: "is_shape r c A \<Longrightarrow> 0 < r \<Longrightarrow> ncols A = c"
  by (cases A) (simp_all add: is_shape_def ncols_def)

lemma mat_eqI:
  assumes A: "is_shape r c A" and B: "is_shape r c B"
    and entries: "\<And>i j. i < r \<Longrightarrow> j < c \<Longrightarrow> A ! i ! j = B ! i ! j"
  shows "A = B"
proof (rule nth_equalityI)
  show "length A = length B"
    using A B by (simp add: is_shape_def)
next
  fix i assume "i < length A"
  with A have i: "i < r"
    by (simp add: is_shape_def)
  show "A ! i = B ! i"
  proof (rule nth_equalityI)
    show "length (A ! i) = length (B ! i)"
      using A B i by (simp add: is_shape_nth)
  next
    fix j assume "j < length (A ! i)"
    with A i have "j < c"
      by (simp add: is_shape_nth)
    with i show "A ! i ! j = B ! i ! j"
      by (rule entries)
  qed
qed

lemma is_shape_matmul:
  assumes A: "is_shape r n A" and B: "is_shape n c B" and n: "0 < n"
  shows "is_shape r c (matmul A B)"
proof -
  from B n have "ncols B = c"
    by (rule ncols_is_shape)
  with A show ?thesis
    by (simp add: is_shape_def matmul_def)
qed

lemma matmul_eye_right:
  assumes M: "is_shape r d M" and d: "0 < d"
  shows "matmul M (eye d) = M"
proof (rule mat_eqI [where r = r and c = d])
  show "is_shape r d (matmul M (eye d))"
    using M is_shape_eye d by (rule is_shape_matmul)
  show "is_shape r d M"
    by (rule M)
next
  fix i j assume i: "i < r" and j: "j < d"
  have "matmul M (eye d) ! i ! j = (\<Sum>k < d. M ! i ! k * eye d ! k ! j)"
    by (rule nth_matmul [OF M is_shape_eye d i j])
  also have "\<dots> = (\<Sum>k < d. if k = j then M ! i ! j else 0)"
    using j by (intro sum.cong) (auto simp: nth_eye)
  also have "\<dots> = M ! i ! j"
    using j by simp
  finally show "matmul M (eye d) ! i ! j = M ! i ! j" .
qed

lemma matmul_eye_left:
  assumes M: "is_shape d c M" and d: "0 < d"
  shows "matmul (eye d) M = M"
proof (rule mat_eqI [where r = d and c = c])
  show "is_shape d c (matmul (eye d) M)"
    using is_shape_eye M d by (rule is_shape_matmul)
  show "is_shape d c M"
    by (rule M)
next
  fix i j assume i: "i < d" and j: "j < c"
  have "matmul (eye d) M ! i ! j = (\<Sum>k < d. eye d ! i ! k * M ! k ! j)"
    by (rule nth_matmul [OF is_shape_eye M d i j])
  also have "\<dots> = (\<Sum>k < d. if k = i then M ! i ! j else 0)"
    using i by (intro sum.cong) (auto simp: nth_eye)
  also have "\<dots> = M ! i ! j"
    using i by simp
  finally show "matmul (eye d) M ! i ! j = M ! i ! j" .
qed

lemma matmul_assoc:
  assumes A: "is_shape r n A" and B: "is_shape n m B" and C: "is_shape m c C"
    and n: "0 < n" and m: "0 < m"
  shows "matmul (matmul A B) C = matmul A (matmul B C)"
proof (rule mat_eqI [where r = r and c = c])
  have AB: "is_shape r m (matmul A B)"
    using A B n by (rule is_shape_matmul)
  have BC: "is_shape n c (matmul B C)"
    using B C m by (rule is_shape_matmul)
  show "is_shape r c (matmul (matmul A B) C)"
    using AB C m by (rule is_shape_matmul)
  show "is_shape r c (matmul A (matmul B C))"
    using A BC n by (rule is_shape_matmul)
  fix i j assume i: "i < r" and j: "j < c"
  have "matmul (matmul A B) C ! i ! j = (\<Sum>k < m. matmul A B ! i ! k * C ! k ! j)"
    by (rule nth_matmul [OF AB C m i j])
  also have "\<dots> = (\<Sum>k < m. (\<Sum>l < n. A ! i ! l * B ! l ! k) * C ! k ! j)"
    using nth_matmul [OF A B n i] by simp
  also have "\<dots> = (\<Sum>k < m. \<Sum>l < n. A ! i ! l * (B ! l ! k * C ! k ! j))"
    by (simp add: sum_distrib_right mult.assoc)
  also have "\<dots> = (\<Sum>l < n. \<Sum>k < m. A ! i ! l * (B ! l ! k * C ! k ! j))"
    by (rule sum.swap)
  also have "\<dots> = (\<Sum>l < n. A ! i ! l * (\<Sum>k < m. B ! l ! k * C ! k ! j))"
    by (simp add: sum_distrib_left)
  also have "\<dots> = (\<Sum>l < n. A ! i ! l * matmul B C ! l ! j)"
    using nth_matmul [OF B C m _ j] by simp
  also have "\<dots> = matmul A (matmul B C) ! i ! j"
    by (rule nth_matmul [OF A BC n i j, symmetric])
  finally show "matmul (matmul A B) C ! i ! j = matmul A (matmul B C) ! i ! j" .
qed

lemma bmm_nth: "n < length P \<Longrightarrow> n < length Q \<Longrightarrow> bmm P Q ! n = matmul (P ! n) (Q ! n)"
  by (simp add: bmm_def)

lemma is_bshape_nth: "is_bshape N r c P \<Longrightarrow> n < N \<Longrightarrow> is_shape r c (P ! n)"
  by (simp add: is_bshape_def)

lemma identity_batch:
  assumes "is_bshape N D D A"
  shows "tile (eye (shape1 A)) (length A) = tile (eye D) N"
proof (cases A)
  case Nil
  with assms show ?thesis
    by (simp add: is_bshape_def tile_def)
next
  case (Cons M Ms)
  with assms show ?thesis
    by (simp add: is_bshape_def tile_def shape1_def is_shape_def)
qed

lemma reparametrise_exact:
  assumes D: "0 < D"
    and A: "is_bshape N D D A" and Ainv: "is_bshape N D D Ainv" and b: "is_bshape N D c b"
    and exact1: "cho_solve E (cho_factor E A) b = bmm Ainv b"
    and exact2: "cho_solve E (cho_factor E A) (tile (eye D) N) = bmm Ainv (tile (eye D) N)"
    and n: "n < N"
  shows "fst (reparametrise E b A) ! n = matmul (Ainv ! n) (b ! n)"
    and "snd (reparametrise E b A) ! n = Ainv ! n"
proof -
  have len: "length A = N" "length Ainv = N" "length b = N"
    using A Ainv b by (simp_all add: is_bshape_def)
  have "fst (reparametrise E b A) = bmm Ainv b"
    using exact1 by (simp add: reparametrise_def Let_def)
  with len n show "fst (reparametrise E b A) ! n = matmul (Ainv ! n) (b ! n)"
    by (simp add: bmm_nth)
  have "snd (reparametrise E b A) = bmm Ainv (tile (eye D) N)"
    using exact2 identity_batch [OF A] by (simp add: reparametrise_def Let_def)
  with len n have "snd (reparametrise E b A) ! n = matmul (Ainv ! n) (eye D)"
    by (simp add: bmm_nth tile_def)
  also have "\<dots> = Ainv ! n"
    using is_bshape_nth [OF Ainv n] D by (rule matmul_eye_right)
  finally show "snd (reparametrise E b A) ! n = Ainv ! n" .
qed

text \<open>
  Claim C1. Let the Cholesky solve be exact at the second argument \<open>A\<close> of a mutator: \<open>A\<close> has
  an inverse \<open>Ainv\<close> site by site, and \<^verbatim>\<open>cho_solve(cho_factor(A), b)\<close> is \<open>Ainv b\<close> for the
  two right-hand sides of \<open>reparametrise\<close>, the first argument and the identity. Then after
  \<open>update_mean_cov(b, A)\<close> and after \<open>update_nat_params(b, A)\<close> the store holds the arguments,
  and at every site \<open>n\<close> the two parameterisations agree: \<open>covariance\<^sub>n nat1\<^sub>n = mean\<^sub>n\<close> and
  \<open>covariance\<^sub>n nat2\<^sub>n = I\<close>. (The numbers are reals; the tolerance of the floating-point
  solve is not part of this development.)
\<close>

theorem C1_dual_consistency:
  fixes E :: "'c routines" and self :: GaussianDistribution
  assumes D: "0 < D"
    and A: "is_bshape N D D A" and Ainv: "is_bshape N D D Ainv" and b: "is_bshape N D c b"
    and inverse: "\<forall>n < N. matmul (A ! n) (Ainv ! n) = eye D \<and> matmul (Ainv ! n) (A ! n) = eye D"
    and exact1: "cho_solve E (cho_factor E A) b = bmm Ainv b"
    and exact2: "cho_solve E (cho_factor E A) (tile (eye D) N) = bmm Ainv (tile (eye D) N)"
  shows "(let g = update_mean_cov E self b A
          in mean g = b \<and> covariance g = A
             \<and> (\<forall>n < N. matmul (covariance g ! n) (nat1 g ! n) = mean g ! n
                        \<and> matmul (covariance g ! n) (nat2 g ! n) = eye D))
       \<and> (let h = update_nat_params E self b A
          in nat1 h = b \<and> nat2 h = A
             \<and> (\<forall>n < N. matmul (covariance h ! n) (nat1 h ! n) = mean h ! n
                        \<and> matmul (covariance h ! n) (nat2 h ! n) = eye D))"
proof -
  note exact = reparametrise_exact [OF D A Ainv b exact1 exact2]
  have g: "mean (update_mean_cov E self b A) = b" "covariance (update_mean_cov E self b A) = A"
    "nat1 (update_mean_cov E self b A) = fst (reparametrise E b A)"
    "nat2 (update_mean_cov E self b A) = snd (reparametrise E b A)"
    by (simp_all add: update_mean_cov_def split: prod.splits)
  have h: "nat1 (update_nat_params E self b A) = b" "nat2 (update_nat_params E self b A) = A"
    "mean (update_nat_params E self b A) = fst (reparametrise E b A)"
    "covariance (update_nat_params E self b A) = snd (reparametrise E b A)"
    by (simp_all add: update_nat_params_def split: prod.splits)
  have sites: "matmul (A ! n) (matmul (Ainv ! n) (b ! n)) = b ! n"
    "matmul (A ! n) (Ainv ! n) = eye D" "matmul (Ainv ! n) (A ! n) = eye D" if n: "n < N" for n
  proof -
    note An = is_bshape_nth [OF A n] and Xn = is_bshape_nth [OF Ainv n] and bn = is_bshape_nth [OF b n]
    show inv: "matmul (A ! n) (Ainv ! n) = eye D" and "matmul (Ainv ! n) (A ! n) = eye D"
      using inverse n by simp_all
    have "matmul (A ! n) (matmul (Ainv ! n) (b ! n)) = matmul (matmul (A ! n) (Ainv ! n)) (b ! n)"
      by (rule matmul_assoc [OF An Xn bn D D, symmetric])
    also have "\<dots> = b ! n"
      unfolding inv using bn D by (rule matmul_eye_left)
    finally show "matmul (A ! n) (matmul (Ainv ! n) (b ! n)) = b ! n" .
  qed
  show ?thesis
    by (simp add: Let_def g h exact sites)
qed

text \<open>
  Claim C1 on two sites with diagonal matrices, where the solve of \<open>example_routines\<close> is
  exact: both mutators leave consistent parameterisations.
\<close>

theorem C1_dual_consistency_witness:
  "(let g = update_mean_cov example_routines
              \<lparr>mean = [], covariance = [], nat1 = [], nat2 = []\<rparr>
              [[[2], [8]], [[3], [10]]] [[[2, 0], [0, 4]], [[1, 0], [0, 5]]]
    in nat1 g = [[[1], [2]], [[3], [2]]]
       \<and> nat2 g = [[[1 / 2, 0], [0, 1 / 4]], [[1, 0], [0, 1 / 5]]]
       \<and> matmul (covariance g ! 1) (nat1 g ! 1) = mean g ! 1
       \<and> matmul (covariance g ! 1) (nat2 g ! 1) = eye 2)
   \<and> (let h = update_nat_params example_routines
              \<lparr>mean = [], covariance = [], nat1 = [], nat2 = []\<rparr>
              [[[2], [8]], [[3], [10]]] [[[2, 0], [0, 4]], [[1, 0], [0, 5]]]
      in mean h = [[[1], [2]], [[3], [2]]]
       \<and> covariance h = [[[1 / 2, 0], [0, 1 / 4]], [[1, 0], [0, 1 / 5]]]
       \<and> matmul (covariance h ! 1) (nat1 h ! 1) = mean h ! 1
       \<and> matmul (covariance h ! 1) (nat2 h ! 1) = eye 2)"
proof -
  let ?A = "[[[2, 0], [0, 4]], [[1, 0], [0, 5 :: real]]]"
  let ?X = "[[[1 / 2, 0], [0, 1 / 4]], [[1, 0], [0, 1 / 5 :: real]]]"
  let ?b = "[[[2], [8]], [[3], [10 :: real]]]"
  let ?s = "\<lparr>mean = [], covariance = [], nat1 = [], nat2 = []\<rparr>"
  have shapes: "is_bshape 2 2 2 ?A" "is_bshape 2 2 2 ?X" "is_bshape 2 2 1 ?b"
    by (simp_all add: is_bshape_def is_shape_def)
  have inverse: "\<forall>n < 2. matmul (?A ! n) (?X ! n) = eye 2 \<and> matmul (?X ! n) (?A ! n) = eye 2"
  proof (intro allI impI)
    fix n :: nat assume "n < 2"
    then consider "n = 0" | "n = Suc 0"
      by linarith
    then show "matmul (?A ! n) (?X ! n) = eye 2 \<and> matmul (?X ! n) (?A ! n) = eye 2"
    proof cases
      case 1
      have "matmul (?A ! 0) (?X ! 0) = eye 2 \<and> matmul (?X ! 0) (?A ! 0) = eye 2"
        by code_simp
      with 1 show ?thesis by simp
    next
      case 2
      have "matmul (?A ! Suc 0) (?X ! Suc 0) = eye 2 \<and> matmul (?X ! Suc 0) (?A ! Suc 0) = eye 2"
        by code_simp
      with 2 show ?thesis by simp
    qed
  qed
  have exact1: "cho_solve example_routines (cho_factor example_routines ?A) ?b = bmm ?X ?b"
    by code_simp
  have exact2: "cho_solve example_routines (cho_factor example_routines ?A) (tile (eye 2) 2)
      = bmm ?X (tile (eye 2) 2)"
    by code_simp
  have stored: "nat1 (update_mean_cov example_routines ?s ?b ?A) = [[[1], [2]], [[3], [2]]]"
    "nat2 (update_mean_cov example_routines ?s ?b ?A) = ?X"
    "mean (update_nat_params example_routines ?s ?b ?A) = [[[1], [2]], [[3], [2]]]"
    "covariance (update_nat_params example_routines ?s ?b ?A) = ?X"
    by code_simp+
  from C1_dual_consistency [of 2 2 ?A ?X 1 ?b example_routines ?s, OF _ shapes inverse exact1 exact2]
  have "(let g = update_mean_cov example_routines ?s ?b ?A
          in mean g = ?b \<and> covariance g = ?A
             \<and> (\<forall>n < 2. matmul (covariance g ! n) (nat1 g ! n) = mean g ! n
                        \<and> matmul (covariance g ! n) (nat2 g ! n) = eye 2))
       \<and> (let h = update_nat_params example_routines ?s ?b ?A
          in nat1 h = ?b \<and> nat2 h = ?A
             \<and> (\<forall>n < 2. matmul (covariance h ! n) (nat1 h ! n) = mean h ! n
                        \<and> matmul (covariance h ! n) (nat2 h ! n) = eye 2))"
    by simp
  then show ?thesis
    unfolding Let_def using stored by (metis one_less_numeral_iff semiring_norm(76))
qed

section \<open>The log likelihood of the dense model\<close>

lemma example_obs:
  "obs_ind (GP_init example_routines example_kernel (Arr1 [0, 1]) (Arr1 [Some 1, None])) = [0]"
  "covariance (pseudo_likelihood (GP_init example_routines example_kernel (Arr1 [0, 1]) (Arr1 [Some 1, None])))
   = [[[100]], [[100]]]"
  "obs_ind (GP_init example_routines example_kernel (Arr1 [0]) (Arr1 [Some 1])) = [0]"
  "covariance (pseudo_likelihood (GP_init example_routines example_kernel (Arr1 [0]) (Arr1 [Some 1])))
   = [[[100]]]"
  by code_simp+

lemma np_diag_nd_scalar: "np_diag_nd (Sc x) = Inl ValueError"
  by (simp add: np_diag_nd_def)

text \<open>
  Claim C7 states that \<open>GP.compute_log_lik\<close>, called with no arguments, returns the Gaussian
  log normaliser of the observed rows. When exactly one row is observed (one of two data
  points, or the only data point), \<^verbatim>\<open>np.squeeze(pseudo_var)\<close> has no dimension left,
  \<^verbatim>\<open>np.diag\<close> of it raises a \<^verbatim>\<open>ValueError\<close>, and \<open>compute_log_lik\<close> returns no value.
\<close>

theorem C7_single_observation:
  "GP_compute_log_lik example_routines
     (GP_init example_routines example_kernel (Arr1 [0, 1]) (Arr1 [Some 1, None])) None None
   = Inl ValueError
   \<and> GP_compute_log_lik example_routines
     (GP_init example_routines example_kernel (Arr1 [0]) (Arr1 [Some 1])) None None
   = Inl ValueError"
  by (simp add: GP_compute_log_lik_def Let_def example_obs gather_def of_bmat_def of_mat_def of_vec_def
      np_diag_nd_scalar)

section \<open>Posterior samples of the Markov model\<close>

text \<open>
  Claim C8 states that \<open>MarkovGP.posterior_sample\<close> returns, for every sample, the prior
  sample minus its own smoothed sample plus the posterior mean. With one training input
  and no test input, every smoothed sample is squeezed to a number, the two stacked
  smoothed samples form a one-dimensional array, and the subtraction broadcasts the
  \<open>2 \<times> 1\<close> array of the prior samples against it. Here the prior samples are \<open>10\<^sup>-\<^sup>8\<close> and
  \<open>-1 + 10\<^sup>-\<^sup>8\<close>, their smoothed samples \<open>100 + 10\<^sup>-\<^sup>8\<close> and \<open>99 + 10\<^sup>-\<^sup>8\<close>, and the
  posterior mean \<open>0\<close>: the identity of the claim gives \<open>-100\<close> for both samples, and the
  result has \<open>-101\<close> for the second, its prior sample minus the smoothed sample of the
  first. With two training inputs both samples are as the claim states.
\<close>

theorem C8_single_input_location:
  "MarkovGP_posterior_sample example_routines
     (MarkovGP_init example_routines example_kernel (Arr1 [0]) (Arr1 [Some 1]) None None) None 2 1
   = Inr (Ar [Ar [Sc (- 100)], Ar [Sc (- 101)]])
   \<and> MarkovGP_prior_sample example_routines
     (MarkovGP_init example_routines example_kernel (Arr1 [0]) (Arr1 [Some 1]) None None) 2 None 1
   = [[[[1 / 10 ^ 8]]], [[[- 1 + 1 / 10 ^ 8]]]]
   \<and> fst (MarkovGP_predict example_routines
     (MarkovGP_init example_routines example_kernel (Arr1 [0]) (Arr1 [Some 1]) None None) None None
       (Some ([[[100 + 1 / 10 ^ 8]]], [[[100]]]))) = Sc (100 + 1 / 10 ^ 8)
   \<and> fst (MarkovGP_predict example_routines
     (MarkovGP_init example_routines example_kernel (Arr1 [0]) (Arr1 [Some 1]) None None) None None
       (Some ([[[99 + 1 / 10 ^ 8]]], [[[100]]]))) = Sc (99 + 1 / 10 ^ 8)
   \<and> fst (MarkovGP_predict example_routines
     (MarkovGP_init example_routines example_kernel (Arr1 [0]) (Arr1 [Some 1]) None None) None None
       None) = Sc 0
   \<and> MarkovGP_posterior_sample example_routines
     (MarkovGP_init example_routines example_kernel (Arr1 [0, 1]) (Arr1 [Some 1, Some 2]) None None)
       None 2 1
   = Inr (Ar [Ar [Sc (- 100), Sc (- 100)], Ar [Sc (- 100), Sc (- 100)]])"
  by code_simp

section \<open>The cached projector of the sparse Markov model\<close>

lemma length_mT: "length (mT A) = ncols A"
  by (simp add: mT_def)












section \<open>What prediction changes\<close>

lemma example_sparse_posterior:
  "posterior_mean (SparseGP_init example_routines example_kernel (Arr1 [0, 1]) (Arr1 [Some 0, None]) (Arr1 [0]))
   = [[[0]]]"
  "sparse_gaussian_conditional example_routines
     (kernel (SparseGP_init example_routines example_kernel (Arr1 [0, 1]) (Arr1 [Some 0, None]) (Arr1 [0])))
     (nat1 (pseudo_likelihood (SparseGP_init example_routines example_kernel (Arr1 [0, 1]) (Arr1 [Some 0, None]) (Arr1 [0]))))
     (nat2 (pseudo_likelihood (SparseGP_init example_routines example_kernel (Arr1 [0, 1]) (Arr1 [Some 0, None]) (Arr1 [0]))))
     (X (SparseGP_init example_routines example_kernel (Arr1 [0, 1]) (Arr1 [Some 0, None]) (Arr1 [0])))
     (SparseGP.Z (SparseGP_init example_routines example_kernel (Arr1 [0, 1]) (Arr1 [Some 0, None]) (Arr1 [0])))
   = ([[5]], [[7]])"
  by code_simp+

text \<open>
  Claim C10. \<open>GP.predict\<close> returns the model as it was. \<open>SparseGP.predict\<close> returns the
  model that \<open>update_posterior\<close> leaves: \<open>posterior_mean\<close>, \<open>posterior_variance\<close> and
  \<open>posterior_covariance\<close> are overwritten with the result of \<open>sparse_gaussian_conditional\<close>
  on the stored sites, and the site store is unchanged.
\<close>

theorem C10_predict_frame:
  fixes E :: "'c routines" and gp :: "'a GP_scheme" and sgp :: "'b SparseGP_scheme" and Xtest
  defines "sgp' \<equiv> fst (SparseGP_predict E sgp Xtest)"
  defines "upd \<equiv> sparse_gaussian_conditional E (kernel sgp) (nat1 (pseudo_likelihood sgp))
      (nat2 (pseudo_likelihood sgp)) (X sgp) (SparseGP.Z sgp)"
  shows "fst (GP_predict E gp Xtest) = gp
    \<and> sgp' = SparseGP_update_posterior E sgp
    \<and> posterior_mean sgp' = reshape_N11 (concat (fst upd))
    \<and> posterior_variance sgp' = reshape_N11 (np_diag (snd upd))
    \<and> posterior_covariance sgp' = snd upd
    \<and> pseudo_likelihood sgp' = pseudo_likelihood sgp"
  unfolding sgp'_def upd_def
  by (simp add: GP_predict_def SparseGP_predict_def SparseGP_update_posterior_def Let_def
      split: prod.splits)

text \<open>
  Claim C10 on the example models: prediction leaves the dense model as constructed, and
  moves the posterior mean of the sparse model from \<open>0\<close> to \<open>5\<close>.
\<close>

theorem C10_predict_frame_witness:
  "fst (GP_predict example_routines
         (GP_init example_routines example_kernel (Arr1 [0, 1]) (Arr1 [Some 0, None])) (Arr1 [3]))
     = GP_init example_routines example_kernel (Arr1 [0, 1]) (Arr1 [Some 0, None])
   \<and> posterior_mean (fst (SparseGP_predict example_routines
         (SparseGP_init example_routines example_kernel (Arr1 [0, 1]) (Arr1 [Some 0, None]) (Arr1 [0]))
         (Arr1 [3]))) = [[[5]]]
   \<and> posterior_mean (SparseGP_init example_routines example_kernel (Arr1 [0, 1]) (Arr1 [Some 0, None])
         (Arr1 [0])) = [[[0]]]"
proof -
  note frame = C10_predict_frame [where E = example_routines
      and gp = "GP_init example_routines example_kernel (Arr1 [0, 1]) (Arr1 [Some 0, None])"
      and sgp = "SparseGP_init example_routines example_kernel (Arr1 [0, 1]) (Arr1 [Some 0, None]) (Arr1 [0])"
      and Xtest = "Arr1 [3]", unfolded example_sparse_posterior(2)]
  from frame have "posterior_mean (fst (SparseGP_predict example_routines
         (SparseGP_init example_routines example_kernel (Arr1 [0, 1]) (Arr1 [Some 0, None]) (Arr1 [0]))
         (Arr1 [3]))) = reshape_N11 (concat (fst ([[5]], [[7 :: real]])))"
    by blast
  then have "posterior_mean (fst (SparseGP_predict example_routines
         (SparseGP_init example_routines example_kernel (Arr1 [0, 1]) (Arr1 [Some 0, None]) (Arr1 [0]))
         (Arr1 [3]))) = [[[5]]]"
    by (simp add: reshape_N11_def)
  with frame example_sparse_posterior(1) show ?thesis
    by blast
qed

end
